theory Spec2Isabelle
  imports Main "HOL-Library.Sublist" "HOL-Library.Char_ord" "HOL-Library.List_Lexorder"
begin

section \<open>Strings\<close>

text \<open>
  Python strings are modelled as \<^typ>\<open>string\<close>; the model covers the ASCII range, where
  \<open>str.lower\<close> maps \<open>A..Z\<close> to \<open>a..z\<close> and the regular expression class \<open>\d\<close> is
  \<open>0..9\<close>.
\<close>

definition lower_char :: "char \<Rightarrow> char" where
  "lower_char c =
     (case map_of (zip ''ABCDEFGHIJKLMNOPQRSTUVWXYZ'' ''abcdefghijklmnopqrstuvwxyz'') c of
        None \<Rightarrow> c | Some l \<Rightarrow> l)"

definition lower :: "string \<Rightarrow> string" where
  "lower s = map lower_char s"

text \<open>\<open>sub in s\<close> on strings: \<open>sub\<close> occurs as a contiguous substring of \<open>s\<close>.\<close>

fun contains :: "string \<Rightarrow> string \<Rightarrow> bool" where
  "contains sub [] = (sub = [])"
| "contains sub (c # cs) = (prefix sub (c # cs) \<or> contains sub cs)"

text \<open>\<open>s.strip(chars)\<close>: drop leading and trailing characters that are in \<open>chars\<close>.\<close>

definition strip :: "string \<Rightarrow> string \<Rightarrow> string" where
  "strip chars s =
     rev (dropWhile (\<lambda>c. c \<in> set chars) (rev (dropWhile (\<lambda>c. c \<in> set chars) s)))"

definition quote_chars :: string where
  "quote_chars = [CHR 0x22, CHR 0x27]"

text \<open>Truthiness of a value that is a string or \<open>None\<close>.\<close>

definition truthy :: "string option \<Rightarrow> bool" where
  "truthy v = (case v of None \<Rightarrow> False | Some s \<Rightarrow> s \<noteq> [])"

definition is_digit :: "char \<Rightarrow> bool" where
  "is_digit c = (c \<in> set ''0123456789'')"

definition is_hex_digit :: "char \<Rightarrow> bool" where
  "is_hex_digit c = (c \<in> set ''0123456789abcdefABCDEF'')"

definition is_lower_hex_digit :: "char \<Rightarrow> bool" where
  "is_lower_hex_digit c = (c \<in> set ''0123456789abcdef'')"

text \<open>\<open>re.findall(r'\d+', s)\<close>: the maximal runs of digits, left to right.\<close>

fun digit_runs_from :: "string \<Rightarrow> string \<Rightarrow> string list" where
  "digit_runs_from cur [] = (if cur = [] then [] else [cur])"
| "digit_runs_from cur (c # cs) =
     (if is_digit c then digit_runs_from (cur @ [c]) cs
      else if cur = [] then digit_runs_from [] cs
      else cur # digit_runs_from [] cs)"

definition findall_digits :: "string \<Rightarrow> string list" where
  "findall_digits s = digit_runs_from [] s"

text \<open>\<open>re.match(r'(\d+)', s)\<close>: the leading run of digits, if there is one.\<close>

definition match_leading_digits :: "string \<Rightarrow> string option" where
  "match_leading_digits s =
     (if takeWhile is_digit s = [] then None else Some (takeWhile is_digit s))"

definition digit_value :: "char \<Rightarrow> nat" where
  "digit_value c =
     (case map_of (zip ''0123456789'' [0, 1, 2, 3, 4, 5, 6, 7, 8, 9]) c of
        None \<Rightarrow> 0 | Some d \<Rightarrow> d)"

text \<open>
  \<open>int(ds)\<close> for a string of decimal digits. (Recent interpreters refuse a run of
  more than 4300 digits with \<open>ValueError\<close>, which \<open>rgb_to_hex\<close> answers with
  \<open>None\<close>; the model converts a run of any length.)
\<close>

definition int_of_digits :: "string \<Rightarrow> nat" where
  "int_of_digits ds = foldl (\<lambda>a c. 10 * a + digit_value c) 0 ds"

definition hex_digit :: "nat \<Rightarrow> char" where
  "hex_digit n = ''0123456789abcdef'' ! (n mod 16)"

fun to_hex :: "nat \<Rightarrow> string" where
  "to_hex n = (if n < 16 then [hex_digit n] else to_hex (n div 16) @ [hex_digit n])"

declare to_hex.simps [simp del]

text \<open>The format specification \<open>{n:02x}\<close>: lowercase hex, zero-padded to width two.\<close>

definition format_02x :: "nat \<Rightarrow> string" where
  "format_02x n = replicate (2 - length (to_hex n)) (CHR ''0'') @ to_hex n"

definition format_hex_color :: "nat \<Rightarrow> nat \<Rightarrow> nat \<Rightarrow> string" where
  "format_hex_color r g b = CHR ''#'' # format_02x r @ format_02x g @ format_02x b"

section \<open>Color conversion\<close>

text \<open>
  \<open>rgb_to_hex\<close>: \<open>None\<close> for a missing or empty value and for a value without the
  substring \<open>rgb\<close> (case-insensitively); otherwise the first three digit runs, clamped to
  \<open>0..255\<close>, as \<open>#rrggbb\<close>; \<open>None\<close> when there are fewer than three.
\<close>

definition rgb_to_hex :: "string option \<Rightarrow> string option" where
  "rgb_to_hex rgb_str =
     (case rgb_str of
        None \<Rightarrow> None
      | Some s \<Rightarrow>
          if s = [] \<or> \<not> contains ''rgb'' (lower s) then None
          else
            (let numbers = findall_digits s in
             if length numbers \<ge> 3 then
               (let r = int_of_digits (numbers ! 0);
                    g = int_of_digits (numbers ! 1);
                    b = int_of_digits (numbers ! 2)
                in Some (format_hex_color (max 0 (min r 255)) (max 0 (min g 255))
                           (max 0 (min b 255))))
             else None))"

text \<open>The pattern \<open>^#[0-9a-f]{6}$\<close> read as a full match of a seven-character string.\<close>

definition is_lower_hex_color :: "string \<Rightarrow> bool" where
  "is_lower_hex_color s =
     (case s of [] \<Rightarrow> False
      | c # cs \<Rightarrow> c = CHR ''#'' \<and> length cs = 6 \<and> list_all is_lower_hex_digit cs)"

section \<open>Color resolver\<close>

type_synonym rgb = "nat \<times> nat \<times> nat"

record color_info =
  primary_color :: string
  secondary_color :: string
  accent_color :: string
  background_color :: string
  text_color :: string
  palette :: "string list"

text \<open>
  \<open>re.match(r'^#[0-9a-fA-F]{6}$', c)\<close>; in Python \<open>$\<close> also matches before a final
  newline.
\<close>

definition hex6_match :: "string \<Rightarrow> bool" where
  "hex6_match c =
     (case c of [] \<Rightarrow> False
      | h # cs \<Rightarrow> h = CHR ''#'' \<and> length (take 6 cs) = 6 \<and> list_all is_hex_digit (take 6 cs)
                 \<and> (drop 6 cs = [] \<or> drop 6 cs = [CHR 0x0A]))"

text \<open>\<open>c[1:3] == c[3:5] == c[5:7]\<close>\<close>

definition is_gray :: "string \<Rightarrow> bool" where
  "is_gray c = (take 2 (drop 1 c) = take 2 (drop 3 c) \<and> take 2 (drop 3 c) = take 2 (drop 5 c))"

definition hex_dominant_colors :: "rgb list \<Rightarrow> string list" where
  "hex_dominant_colors dominant_colors_rgb =
     map (\<lambda>(r, g, b). format_hex_color r g b) dominant_colors_rgb"

text \<open>
  The set \<open>valid_hex_colors\<close>: the dominant colors of the screenshot, the converted
  computed-style colors and the converted CSS rule values, without \<open>None\<close> and without
  anything that is not six hex digits.
\<close>

definition all_hex_colors :: "rgb list \<Rightarrow> string list \<Rightarrow> string list \<Rightarrow> string option set" where
  "all_hex_colors dominant_colors_rgb computed_colors_raw colors_from_css_rules =
     (let hex_computed_colors = (\<lambda>c. rgb_to_hex (Some c)) ` set computed_colors_raw;
          hex_css_rule_colors = (\<lambda>c. rgb_to_hex (Some c)) ` set colors_from_css_rules
      in Some ` set (hex_dominant_colors dominant_colors_rgb)
           \<union> hex_computed_colors \<union> hex_css_rule_colors)"

definition valid_hex_colors :: "rgb list \<Rightarrow> string list \<Rightarrow> string list \<Rightarrow> string set" where
  "valid_hex_colors dominant_colors_rgb computed_colors_raw colors_from_css_rules =
     the ` Set.filter (\<lambda>c. c \<noteq> None \<and> hex6_match (the c))
             (all_hex_colors dominant_colors_rgb computed_colors_raw colors_from_css_rules)"

text \<open>
  The body colors: \<open>None\<close> stands for a script call that raised, after which both
  defaults are used; otherwise each converted value, or its default when the conversion
  gives \<open>None\<close>.
\<close>

definition body_colors :: "(string option \<times> string option) option \<Rightarrow> string \<times> string" where
  "body_colors body_styles =
     (case body_styles of
        None \<Rightarrow> (''#ffffff'', ''#000000'')
      | Some (body_bg_color_str, body_text_color_str) \<Rightarrow>
          ((case rgb_to_hex body_bg_color_str of None \<Rightarrow> ''#ffffff'' | Some h \<Rightarrow> h),
           (case rgb_to_hex body_text_color_str of None \<Rightarrow> ''#000000'' | Some h \<Rightarrow> h)))"

text \<open>
  The choice of primary, secondary and accent from \<open>sorted_colors\<close>, the list made from
  the set of valid colors.
\<close>

definition assign_roles :: "string list \<Rightarrow> string \<Rightarrow> string \<Rightarrow> string \<times> string \<times> string" where
  "assign_roles sorted_colors background_color_hex text_color_hex =
     (let non_gray_colors =
            filter (\<lambda>c. lower c \<notin> set [lower background_color_hex, lower text_color_hex]
                         \<and> \<not> is_gray c) sorted_colors
      in
      if length non_gray_colors \<ge> 3 then
        (non_gray_colors ! 0, non_gray_colors ! 1, non_gray_colors ! 2)
      else if length sorted_colors \<ge> 3 then
        (let potential_primaries =
               filter (\<lambda>c. lower c \<notin> set [lower background_color_hex, lower text_color_hex])
                 sorted_colors;
             primary = (if potential_primaries \<noteq> [] then potential_primaries ! 0
                        else sorted_colors ! 0);
             potential_secondaries =
               filter (\<lambda>c. lower c \<notin> set [lower background_color_hex, lower text_color_hex,
                                              lower primary]) sorted_colors;
             secondary = (if potential_secondaries \<noteq> [] then potential_secondaries ! 0
                          else if length sorted_colors > 1 then sorted_colors ! 1
                          else primary);
             potential_accents =
               filter (\<lambda>c. lower c \<notin> set [lower background_color_hex, lower text_color_hex,
                                              lower primary, lower secondary]) sorted_colors;
             accent = (if potential_accents \<noteq> [] then potential_accents ! 0
                       else if length sorted_colors > 2 then sorted_colors ! 2
                       else secondary)
         in (primary, secondary, accent))
      else if length sorted_colors = 2 then
        (sorted_colors ! 0, sorted_colors ! 1, sorted_colors ! 0)
      else if length sorted_colors = 1 then
        (sorted_colors ! 0,
         (if lower (sorted_colors ! 0) \<noteq> lower text_color_hex then text_color_hex
          else background_color_hex),
         sorted_colors ! 0)
      else (''#0000ff'', ''#d3d3d3'', ''#ffa500''))"

text \<open>
  \<open>list(s)\<close> on a set gives its elements once each, in the iteration order of the set,
  which for strings depends on the hash seed of the process and not on the elements alone.
  The order is therefore an argument \<open>set_order\<close> of the model, and \<open>iteration_of\<close> says
  what every such order satisfies.
\<close>

definition iteration_of :: "'a list \<Rightarrow> 'a set \<Rightarrow> bool" where
  "iteration_of xs S = (distinct xs \<and> set xs = S)"

definition extract_color_palette ::
  "(string set \<Rightarrow> string list) \<Rightarrow> rgb list \<Rightarrow> string list \<Rightarrow> string list
     \<Rightarrow> (string option \<times> string option) option \<Rightarrow> color_info" where
  "extract_color_palette set_order dominant_colors_rgb computed_colors_raw colors_from_css_rules
       body_styles =
     (let valid = valid_hex_colors dominant_colors_rgb computed_colors_raw colors_from_css_rules;
          sorted_colors = set_order valid;
          (background_color_hex, text_color_hex) = body_colors body_styles;
          (primary, secondary, accent) =
             assign_roles sorted_colors background_color_hex text_color_hex
      in \<lparr>primary_color = primary, secondary_color = secondary, accent_color = accent,
          background_color = background_color_hex, text_color = text_color_hex,
          palette = take 15 (sorted_list_of_set valid)\<rparr>)"

text \<open>Two iteration orders, for running the model on concrete inputs.\<close>

definition ascending_order :: "string set \<Rightarrow> string list" where
  "ascending_order S = sorted_list_of_set S"

definition descending_order :: "string set \<Rightarrow> string list" where
  "descending_order S = rev (sorted_list_of_set S)"

section \<open>Typography resolver\<close>

record body_typography =
  font_family :: string
  font_size :: string
  font_weight :: string
  line_height :: string

record heading_typography =
  heading_font_family :: string
  heading_font_size :: string
  heading_font_weight :: string

text \<open>
  The headings dictionary is an association list in insertion order. Font import discovery
  is not part of the model.
\<close>

record typography =
  headings :: "(string \<times> heading_typography) list"
  body :: body_typography

text \<open>
  What the browser answers for one heading element: \<open>is_displayed\<close> (\<open>None\<close> when the
  call raises) and the three computed styles as \<open>get_style\<close> returns them (\<open>None\<close> when
  the script raises).
\<close>

record heading_element =
  is_displayed :: "bool option"
  fontFamily :: "string option"
  fontSize :: "string option"
  fontWeight :: "string option"

text \<open>
  \<open>[el for el in elements if el.is_displayed()]\<close>; \<open>None\<close> when one of the calls raises.
\<close>

fun visible_elements :: "heading_element list \<Rightarrow> heading_element list option" where
  "visible_elements [] = Some []"
| "visible_elements (el # els) =
     (case is_displayed el of
        None \<Rightarrow> None
      | Some d \<Rightarrow>
          (case visible_elements els of
             None \<Rightarrow> None
           | Some vs \<Rightarrow> Some (if d then el # vs else vs)))"

text \<open>
  One pass of the loop over the heading tags; the argument is the result of
  \<open>find_elements\<close> for the tag, \<open>None\<close> when it raises. The result is the entry added to
  the headings dictionary, if any.
\<close>

definition heading_entry :: "heading_element list option \<Rightarrow> heading_typography option" where
  "heading_entry found =
     (case found of
        None \<Rightarrow> None
      | Some elements \<Rightarrow>
          if elements = [] then None
          else
            (case visible_elements elements of
               None \<Rightarrow> None
             | Some visible \<Rightarrow>
                 if visible = [] then None
                 else
                   (let element = visible ! 0 in
                    if truthy (fontFamily element) \<and> truthy (fontSize element)
                       \<and> truthy (fontWeight element)
                    then Some \<lparr>heading_font_family = strip quote_chars (the (fontFamily element)),
                               heading_font_size = the (fontSize element),
                               heading_font_weight = the (fontWeight element)\<rparr>
                    else None)))"

definition heading_tags :: "string list" where
  "heading_tags = [''h1'', ''h2'', ''h3'', ''h4'', ''h5'', ''h6'']"

text \<open>
  The body descriptor; the argument is \<open>None\<close> when looking up the body element raises,
  otherwise the four computed styles of the body.
\<close>

definition body_entry ::
  "(string option \<times> string option \<times> string option \<times> string option) option
     \<Rightarrow> body_typography" where
  "body_entry found =
     (case found of
        None \<Rightarrow> \<lparr>font_family = ''sans-serif'', font_size = ''16px'', font_weight = ''400'',
                 line_height = ''normal''\<rparr>
      | Some (body_font, body_size, body_weight, body_line_height) \<Rightarrow>
          \<lparr>font_family = (if truthy body_font then strip quote_chars (the body_font)
                           else ''sans-serif''),
           font_size = (if truthy body_size then the body_size else ''16px''),
           font_weight = (if truthy body_weight then the body_weight else ''400''),
           line_height = (if truthy body_line_height then the body_line_height
                          else ''normal'')\<rparr>)"

definition extract_typography ::
  "(string option \<times> string option \<times> string option \<times> string option) option
     \<Rightarrow> (string \<Rightarrow> heading_element list option) \<Rightarrow> typography" where
  "extract_typography body_found headings_found =
     \<lparr>headings =
        List.map_filter (\<lambda>tag. map_option (Pair tag) (heading_entry (headings_found tag)))
          heading_tags,
      body = body_entry body_found\<rparr>"

section \<open>Layout analyzer\<close>

text \<open>
  A value of a list in the schema: a string, or a number, which a schema that was not
  produced by the analyzer may hold in place of a string.
\<close>

datatype pyval = PyStr string | PyInt int

record layout_info =
  page_dimensions :: "int \<times> int"
  container_width :: "int option"
  has_grid_system :: bool
  common_spacing_units :: "pyval list"

text \<open>The elements of a list, each once, in the order of their first occurrence.\<close>

fun first_seen :: "'a list \<Rightarrow> 'a list \<Rightarrow> 'a list" where
  "first_seen seen [] = []"
| "first_seen seen (x # xs) =
     (if x \<in> set seen then first_seen seen xs else x # first_seen (x # seen) xs)"

text \<open>
  \<open>Counter(samples).most_common(n)\<close>: the distinct samples by descending count, samples
  of equal count in the order of their first occurrence.
\<close>

definition most_common :: "nat \<Rightarrow> string list \<Rightarrow> (string \<times> nat) list" where
  "most_common n samples =
     take n (sort_key (\<lambda>(space, count). - int count)
               (map (\<lambda>x. (x, count_list samples x)) (first_seen [] samples)))"

text \<open>
  The last step of \<open>analyze_layout\<close>, from the collected \<open>spacing_samples\<close> to the field
  \<open>common_spacing_units\<close>, which starts as the empty list.
\<close>

definition spacing_units_of :: "string list \<Rightarrow> pyval list" where
  "spacing_units_of spacing_samples =
     (if spacing_samples \<noteq> [] then map (\<lambda>(space, count). PyStr space) (most_common 5 spacing_samples)
      else [])"

text \<open>
  \<open>analyze_layout\<close>, with the page dimensions, the container width and the grid flag
  as the browser queries gave them.
\<close>

definition analyze_layout :: "int \<times> int \<Rightarrow> int option \<Rightarrow> bool \<Rightarrow> string list \<Rightarrow> layout_info" where
  "analyze_layout dims width grid spacing_samples =
     \<lparr>page_dimensions = dims, container_width = width, has_grid_system = grid,
      common_spacing_units = spacing_units_of spacing_samples\<rparr>"

section \<open>Components and images\<close>

text \<open>
  A style dictionary: keys to values, a value being a string or \<open>None\<close>.
\<close>

type_synonym style_bag = "(string \<times> string option) list"

text \<open>\<open>bag.get(key, default)\<close>\<close>

definition bag_get :: "style_bag \<Rightarrow> string \<Rightarrow> string option \<Rightarrow> string option" where
  "bag_get bag key dflt = (case map_of bag key of None \<Rightarrow> dflt | Some v \<Rightarrow> v)"

record components =
  buttons :: style_bag
  cards :: style_bag
  form_inputs :: style_bag
  navigation :: style_bag
  detected_css_patterns :: "string list"
  sidebar :: "int option option"

record image_info =
  has_svg_icons :: bool
  has_icon_font :: bool
  icon_classes_found :: "string list"
  image_style :: style_bag
  logo_detected :: bool
  logo_url :: "string option"

section \<open>Schema assembler\<close>

record metadata =
  source_url :: string
  extraction_date :: string
  schema_version :: string
  cms :: "(string \<times> string option) option"

record design_schema =
  metadata :: metadata
  colors :: color_info
  typography :: typography
  layout :: layout_info
  components :: components
  images :: image_info
  style_keywords :: "string list"

definition has_rounding :: "components \<Rightarrow> image_info \<Rightarrow> bool" where
  "has_rounding comps imgs =
     (let button_radius = bag_get (buttons comps) ''border_radius'' (Some ''0px'');
          card_radius = bag_get (cards comps) ''border_radius'' (Some ''0px'');
          image_radius = bag_get (image_style imgs) ''border_radius'' (Some ''0px'')
      in list_ex (\<lambda>r. truthy r \<and> r \<noteq> Some ''0px'' \<and> r \<noteq> Some ''0%'')
           [button_radius, card_radius, image_radius])"

definition has_shadow :: "components \<Rightarrow> image_info \<Rightarrow> bool" where
  "has_shadow comps imgs =
     (let card_shadow = bag_get (cards comps) ''box_shadow'' None;
          image_shadow = bag_get (image_style imgs) ''box_shadow'' None;
          nav_shadow = bag_get (navigation comps) ''box_shadow'' None
      in truthy card_shadow \<or> truthy image_shadow \<or> truthy nav_shadow)"

text \<open>
  The font that decides serif or sans-serif: of the first of \<open>h1\<close>, \<open>h2\<close>, \<open>h3\<close> in
  the headings, else (also when that one is empty) of the body; lowercased.
\<close>

definition first_major_heading :: "(string \<times> heading_typography) list \<Rightarrow> heading_typography option" where
  "first_major_heading hs =
     (case List.map_filter (map_of hs) [''h1'', ''h2'', ''h3''] of [] \<Rightarrow> None | h # _ \<Rightarrow> Some h)"

definition keyword_font :: "typography \<Rightarrow> string" where
  "keyword_font typ =
     (let heading_font =
            (if headings typ \<noteq> [] then
               map_option (\<lambda>h. lower (heading_font_family h)) (first_major_heading (headings typ))
             else None)
      in if \<not> truthy heading_font then lower (font_family (body typ)) else the heading_font)"

definition serif_indicators :: "string list" where
  "serif_indicators = [''serif'', ''georgia'', ''times'', ''palatino'', ''bookman'', ''charter'']"

definition keyword_set :: "color_info \<Rightarrow> typography \<Rightarrow> layout_info \<Rightarrow> components \<Rightarrow> image_info \<Rightarrow> string set" where
  "keyword_set cols typ lay comps imgs =
     (if palette cols \<noteq> [] then
        (if length (palette cols) > 6 then {''high-contrast''}
         else if length (palette cols) \<le> 4 then {''limited-palette''}
         else {})
      else {})
     \<union> (if has_rounding comps imgs then {''rounded-corners''} else {''sharp-corners''})
     \<union> (if has_shadow comps imgs then {''uses-shadows''} else {''flat-design''})
     \<union> (if list_ex (\<lambda>indicator. contains indicator (keyword_font typ)) serif_indicators
         then {''serif-typography''} else {''sans-serif-typography''})
     \<union> (if has_grid_system lay then {''grid-layout''} else {})
     \<union> (if container_width lay \<noteq> None \<and> container_width lay \<noteq> Some 0
         then {''contained-width''} else {''full-width-layout''})
     \<union> (if has_svg_icons imgs then {''svg-icons''}
         else if has_icon_font imgs then {''icon-font''}
         else {})"

text \<open>
  \<open>generate_design_schema\<close>; \<open>now\<close> is the timestamp that the clock gives.
\<close>

definition generate_design_schema ::
  "string \<Rightarrow> string \<Rightarrow> color_info \<Rightarrow> typography \<Rightarrow> layout_info \<Rightarrow> components \<Rightarrow> image_info
     \<Rightarrow> design_schema" where
  "generate_design_schema url now cols typ lay comps imgs =
     \<lparr>metadata = \<lparr>source_url = url, extraction_date = now, schema_version = ''1.0'',
                  cms = None\<rparr>,
      colors = cols, typography = typ, layout = lay, components = comps, images = imgs,
      style_keywords = sorted_list_of_set (keyword_set cols typ lay comps imgs)\<rparr>"

section \<open>Enhancement plugins\<close>

text \<open>
  A call of \<open>enhance_schema\<close> either returns a schema or raises. A plugin works on the
  dictionary it is given, so a call that raises leaves that dictionary as it was at the
  raise: \<open>Raised\<close> holds this state.
\<close>

datatype 's outcome = Returned 's | Raised 's

record 's plugin =
  plugin_name :: string
  applicable_types :: "string list"
  enhance_schema :: "'s \<Rightarrow> 's outcome"

definition applies_to :: "'s plugin \<Rightarrow> string \<Rightarrow> bool" where
  "applies_to p detected_type = (detected_type \<in> set (applicable_types p))"

text \<open>
  The state of the loop of \<open>enhance_with_plugins\<close>: the schema, the list
  \<open>applied_plugins\<close>, and the names of the plugins whose \<open>enhance_schema\<close> was called.
\<close>

record 's enhancement =
  enhanced :: 's
  applied_plugins :: "string list"
  invoked_plugins :: "string list"

fun enhance_loop :: "'s plugin list \<Rightarrow> string \<Rightarrow> 's enhancement \<Rightarrow> 's enhancement" where
  "enhance_loop [] website_type st = st"
| "enhance_loop (p # ps) website_type st =
     (if applies_to p website_type then
        (case enhance_schema p (enhanced st) of
           Returned s' \<Rightarrow>
             enhance_loop ps website_type
               \<lparr>enhanced = s', applied_plugins = applied_plugins st @ [plugin_name p],
                invoked_plugins = invoked_plugins st @ [plugin_name p]\<rparr>
         | Raised s' \<Rightarrow>
             enhance_loop ps website_type
               \<lparr>enhanced = s', applied_plugins = applied_plugins st,
                invoked_plugins = invoked_plugins st @ [plugin_name p]\<rparr>)
      else enhance_loop ps website_type st)"

definition enhance_with_plugins :: "'s plugin list \<Rightarrow> 's \<Rightarrow> string \<Rightarrow> 's enhancement" where
  "enhance_with_plugins plugins design_schema website_type =
     enhance_loop plugins website_type
       \<lparr>enhanced = design_schema, applied_plugins = [], invoked_plugins = []\<rparr>"

text \<open>
  The WordPress plugin: it records the CMS and the theme name found in the markup, and a
  visible sidebar with its width when the browser shows one (\<open>sidebar_found\<close>).
\<close>

definition wordpress_enhance_schema ::
  "string option \<Rightarrow> int option option \<Rightarrow> design_schema \<Rightarrow> design_schema outcome" where
  "wordpress_enhance_schema theme_name sidebar_found s =
     Returned
       (s\<lparr>metadata := (metadata s)\<lparr>cms := Some (''wordpress'', theme_name)\<rparr>,
          components :=
            (case sidebar_found of
               None \<Rightarrow> components s
             | Some width \<Rightarrow> (components s)\<lparr>sidebar := Some width\<rparr>)\<rparr>)"

definition WordPressPlugin :: "string option \<Rightarrow> int option option \<Rightarrow> design_schema plugin" where
  "WordPressPlugin theme_name sidebar_found =
     \<lparr>plugin_name = ''wordpress_enhancer'', applicable_types = [''wordpress''],
      enhance_schema = wordpress_enhance_schema theme_name sidebar_found\<rparr>"

definition get_plugins :: "string option \<Rightarrow> int option option \<Rightarrow> design_schema plugin list" where
  "get_plugins theme_name sidebar_found = [WordPressPlugin theme_name sidebar_found]"

section \<open>Artifact derivers\<close>

datatype py_error = TypeError | ValueError | AttributeError

text \<open>
  The values that the code snippets are rendered from. The three snippets are fixed
  templates with these values substituted.
\<close>

record snippet_values =
  sv_primary :: string
  sv_secondary :: string
  sv_accent :: string
  sv_background :: string
  sv_text_color :: string
  sv_body_font_raw :: string
  sv_body_font :: string
  sv_body_size :: string
  sv_heading_font_raw :: string
  sv_heading_font :: string
  spacing_unit_val :: string
  spacing_unit :: string
  border_radius_val :: string
  border_radius :: string

definition whitespace_chars :: string where
  "whitespace_chars = [CHR '' '', CHR 0x09, CHR 0x0A, CHR 0x0B, CHR 0x0C, CHR 0x0D]"

text \<open>\<open>raw.split(',')[0].strip().strip('"\'')\<close>\<close>

definition first_font :: "string \<Rightarrow> string" where
  "first_font raw =
     strip quote_chars (strip whitespace_chars (takeWhile (\<lambda>c. c \<noteq> CHR '','') raw))"

text \<open>
  The spacing base: \<open>8\<close> unless the list has a first value with leading digits.
  \<open>re.match\<close> raises \<open>TypeError\<close> on a value that is not a string.
\<close>

definition spacing_base :: "pyval list \<Rightarrow> py_error + string" where
  "spacing_base spacing_units =
     (case spacing_units of
        [] \<Rightarrow> Inr ''8''
      | v # _ \<Rightarrow>
          (case v of
             PyStr s \<Rightarrow> Inr (case match_leading_digits s of None \<Rightarrow> ''8'' | Some d \<Rightarrow> d)
           | PyInt _ \<Rightarrow> Inl TypeError))"

text \<open>The corner-radius base, from \<open>button_radius or card_radius\<close>, else \<open>4\<close>.\<close>

definition radius_base :: "components \<Rightarrow> string" where
  "radius_base comps =
     (let button_radius = bag_get (buttons comps) ''border_radius'' None;
          card_radius = bag_get (cards comps) ''border_radius'' None;
          radius_to_use = (if truthy button_radius then button_radius else card_radius)
      in if truthy radius_to_use then
           (case match_leading_digits (the radius_to_use) of None \<Rightarrow> ''4'' | Some d \<Rightarrow> d)
         else ''4'')"

text \<open>The body of the \<open>try\<close> block of \<open>generate_design_code_snippets\<close>.\<close>

definition code_snippets_body :: "design_schema \<Rightarrow> py_error + snippet_values" where
  "code_snippets_body s =
     (let body_font_raw = font_family (body (typography s));
          heading_font_raw =
            (if headings (typography s) \<noteq> [] then
               (case first_major_heading (headings (typography s)) of
                  None \<Rightarrow> body_font_raw
                | Some h \<Rightarrow> heading_font_family h)
             else body_font_raw)
      in case spacing_base (common_spacing_units (layout s)) of
           Inl e \<Rightarrow> Inl e
         | Inr unit_val \<Rightarrow>
             Inr \<lparr>sv_primary = primary_color (colors s),
                  sv_secondary = secondary_color (colors s),
                  sv_accent = accent_color (colors s),
                  sv_background = background_color (colors s),
                  sv_text_color = text_color (colors s),
                  sv_body_font_raw = body_font_raw,
                  sv_body_font = first_font body_font_raw,
                  sv_body_size = font_size (body (typography s)),
                  sv_heading_font_raw = heading_font_raw,
                  sv_heading_font = first_font heading_font_raw,
                  spacing_unit_val = unit_val,
                  spacing_unit = unit_val @ ''px'',
                  border_radius_val = radius_base (components s),
                  border_radius = radius_base (components s) @ ''px''\<rparr>)"

text \<open>\<open>generate_design_code_snippets\<close>: \<open>None\<close> when the body raises.\<close>

definition generate_design_code_snippets :: "design_schema \<Rightarrow> snippet_values option" where
  "generate_design_code_snippets s =
     (case code_snippets_body s of Inl e \<Rightarrow> None | Inr v \<Rightarrow> Some v)"

text \<open>
  The documentation is a string: the empty string, or the report rendered from a schema,
  which is never empty (it starts with the title line). The model keeps which of the two it
  is and the schema that the report renders.
\<close>

datatype documentation = EmptyString | Report design_schema

text \<open>
  The body of the \<open>try\<close> block of \<open>generate_documentation\<close>: \<open>', '.join(spacing)\<close>
  raises \<open>TypeError\<close> when the spacing list is not empty and holds a value that is not a
  string.
\<close>

definition documentation_body :: "design_schema \<Rightarrow> py_error + documentation" where
  "documentation_body s =
     (let spacing = common_spacing_units (layout s) in
      if spacing \<noteq> [] \<and> list_ex (\<lambda>v. case v of PyStr _ \<Rightarrow> False | PyInt _ \<Rightarrow> True) spacing
      then Inl TypeError
      else Inr (Report s))"

text \<open>\<open>generate_documentation\<close>: the empty string when the body raises.\<close>

definition generate_documentation :: "design_schema \<Rightarrow> documentation" where
  "generate_documentation s =
     (case documentation_body s of Inl e \<Rightarrow> EmptyString | Inr d \<Rightarrow> d)"

text \<open>
  The dictionary that a deriver is given. A schema from the assembler holds a color
  dictionary under \<open>colors\<close>. A dictionary from elsewhere (what a plugin returned, or the
  argument of a direct call) may hold there a value that is not a dictionary, \<open>None\<close>
  say, and then every \<open>.get\<close> on that value raises \<open>AttributeError\<close>;
  \<open>ColorsNotDict s\<close> is the dictionary \<open>s\<close> with such a value under \<open>colors\<close>.
\<close>

datatype schema_dict = Assembled design_schema | ColorsNotDict design_schema

text \<open>
  \<open>generate_design_code_snippets\<close> on any such dictionary: the first statements of
  its \<open>try\<close> block call \<open>colors.get\<close>, so without a color dictionary the body raises
  and the function returns \<open>None\<close>.
\<close>

definition code_snippets_for :: "schema_dict \<Rightarrow> snippet_values option" where
  "code_snippets_for v =
     (case v of
        Assembled s \<Rightarrow> generate_design_code_snippets s
      | ColorsNotDict s \<Rightarrow> None)"

text \<open>
  \<open>generate_documentation\<close> on any such dictionary: the color table calls
  \<open>colors.get\<close> inside the \<open>try\<close> block, so without a color dictionary the body
  raises and the function returns the empty string.
\<close>

definition documentation_for :: "schema_dict \<Rightarrow> documentation" where
  "documentation_for v =
     (case v of
        Assembled s \<Rightarrow> generate_documentation s
      | ColorsNotDict s \<Rightarrow> EmptyString)"

text \<open>
  The AI view: a copy of the schema with a section \<open>ai_consumption\<close>, of which the model
  keeps the palette copy (the sentences are rendered from the copy, inside a \<open>try\<close>
  block that swallows every exception). \<open>json_copy\<close> is the outcome of the deep copy
  through JSON: when it raises, the function returns the dictionary it was given, without
  the section. The section is assigned after the last \<open>try\<close> block, and its entry
  \<open>full_palette_hex\<close> is read with \<open>ai_schema.get("colors", {}).get("palette", [])\<close>:
  without a color dictionary this raises \<open>AttributeError\<close>, which leaves the function.
\<close>

record ai_schema =
  ai_base :: schema_dict
  full_palette_hex :: "string list option"

definition optimize_for_ai_consumption ::
  "(schema_dict \<Rightarrow> py_error + schema_dict) \<Rightarrow> schema_dict \<Rightarrow> py_error + ai_schema" where
  "optimize_for_ai_consumption json_copy v =
     (case json_copy v of
        Inl e \<Rightarrow> Inr \<lparr>ai_base = v, full_palette_hex = None\<rparr>
      | Inr ai_copy \<Rightarrow>
          (case ai_copy of
             Assembled s \<Rightarrow>
               Inr \<lparr>ai_base = ai_copy, full_palette_hex = Some (palette (colors s))\<rparr>
           | ColorsNotDict s \<Rightarrow> Inl AttributeError))"

text \<open>
  Steps 7 to 9 of \<open>extract_design_scheme_extended\<close>. The results dictionary holds the
  schema and \<open>None\<close> for every artifact; the enabled derivers run one after the other,
  each storing what it returns. The steps stand in one \<open>try\<close> block whose handler
  returns the results as they are, so an exception that leaves the AI view ends the run
  before the code snippets and the documentation are derived.
\<close>

record results =
  result_schema :: "schema_dict option"
  ai_optimized_schema :: "ai_schema option"
  documentation :: "documentation option"
  code_snippets :: "snippet_values option"

definition derive_artifacts ::
  "(schema_dict \<Rightarrow> py_error + schema_dict) \<Rightarrow> bool \<Rightarrow> bool \<Rightarrow> bool \<Rightarrow> schema_dict
     \<Rightarrow> results" where
  "derive_artifacts json_copy optimize_ai generate_code generate_docs v =
     (let results0 = \<lparr>result_schema = Some v, ai_optimized_schema = None,
                       documentation = None, code_snippets = None\<rparr>;
          step7 =
            (if optimize_ai then
               (case optimize_for_ai_consumption json_copy v of
                  Inl e \<Rightarrow> Inl e
                | Inr ai \<Rightarrow> Inr (results0\<lparr>ai_optimized_schema := Some ai\<rparr>))
             else Inr results0)
      in case step7 of
           Inl e \<Rightarrow> results0
         | Inr results7 \<Rightarrow>
             (let results8 =
                    (if generate_code then results7\<lparr>code_snippets := code_snippets_for v\<rparr>
                     else results7);
                  results9 =
                    (if generate_docs
                     then results8\<lparr>documentation := Some (documentation_for v)\<rparr>
                     else results8)
              in results9))"

section \<open>Reference definitions and example inputs\<close>

text \<open>
  The palette as the specification words it: the valid colors in the order of their first
  discovery over the passes (screenshot, style rules, computed styles), without duplicates
  up to letter case, at most 15 of them.
\<close>

fun first_seen_ci :: "string list \<Rightarrow> string list \<Rightarrow> string list" where
  "first_seen_ci seen [] = []"
| "first_seen_ci seen (x # xs) =
     (if lower x \<in> set seen then first_seen_ci seen xs
      else x # first_seen_ci (lower x # seen) xs)"

definition first_discovery_palette :: "rgb list \<Rightarrow> string list \<Rightarrow> string list \<Rightarrow> string list" where
  "first_discovery_palette dominant_colors_rgb computed_colors_raw colors_from_css_rules =
     take 15 (first_seen_ci []
       (filter hex6_match
          (hex_dominant_colors dominant_colors_rgb
           @ List.map_filter (\<lambda>c. rgb_to_hex (Some c)) colors_from_css_rules
           @ List.map_filter (\<lambda>c. rgb_to_hex (Some c)) computed_colors_raw)))"

text \<open>A string that neither starts nor ends with a quote character.\<close>

definition unquoted :: "string \<Rightarrow> bool" where
  "unquoted s = (s = [] \<or> (hd s \<notin> set quote_chars \<and> last s \<notin> set quote_chars))"

text \<open>
  A page on which nothing is found: no heading elements, and the dictionaries with which
  \<open>detect_component_patterns\<close> and \<open>analyze_images_and_icons\<close> start.
\<close>

definition no_headings_found :: "string \<Rightarrow> heading_element list option" where
  "no_headings_found tag = Some []"

definition initial_components :: components where
  "initial_components =
     \<lparr>buttons = [], cards = [], form_inputs = [], navigation = [],
      detected_css_patterns = [], sidebar = None\<rparr>"

definition initial_image_info :: image_info where
  "initial_image_info =
     \<lparr>has_svg_icons = False, has_icon_font = False, icon_classes_found = [],
      image_style = [], logo_detected = False, logo_url = None\<rparr>"

definition blank_page_schema :: design_schema where
  "blank_page_schema =
     generate_design_schema ''http://example.com'' ''2024-01-01T00:00:00''
       (extract_color_palette ascending_order [] [] [] None)
       (extract_typography None no_headings_found)
       (analyze_layout (1920, 1080) None False [])
       initial_components initial_image_info"

text \<open>The same schema with a number in the list of spacing units.\<close>

definition numeric_spacing_schema :: design_schema where
  "numeric_spacing_schema =
     blank_page_schema\<lparr>layout := (layout blank_page_schema)\<lparr>common_spacing_units := [PyInt 8]\<rparr>\<rparr>"

text \<open>
  A page with two \<open>h1\<close> elements, the first hidden and the second visible with a quoted
  font family, a visible \<open>h2\<close> without a font weight, and an \<open>h3\<close> query that raises.
\<close>

definition example_headings_found :: "string \<Rightarrow> heading_element list option" where
  "example_headings_found tag =
     (if tag = ''h1'' then
        Some [\<lparr>is_displayed = Some False, fontFamily = Some ''Arial'', fontSize = Some ''10px'',
                fontWeight = Some ''400''\<rparr>,
              \<lparr>is_displayed = Some True, fontFamily = Some (CHR 0x22 # ''Georgia'' @ [CHR 0x22]),
                fontSize = Some ''32px'', fontWeight = Some ''700''\<rparr>]
      else if tag = ''h2'' then
        Some [\<lparr>is_displayed = Some True, fontFamily = Some ''Arial'', fontSize = Some ''24px'',
                fontWeight = None\<rparr>]
      else if tag = ''h3'' then None
      else Some [])"

text \<open>A plugin for two site types whose \<open>enhance_schema\<close> raises at once.\<close>

definition failing_plugin :: "design_schema plugin" where
  "failing_plugin =
     \<lparr>plugin_name = ''broken'', applicable_types = [''wordpress'', ''general''],
      enhance_schema = Raised\<rparr>"

section \<open>Properties\<close>

subsection \<open>Hex formatting and color conversion\<close>

lemma hex_digit_lower: "is_lower_hex_digit (hex_digit n)"
proof -
  have "n mod 16 < length ''0123456789abcdef''" by simp
  then have "''0123456789abcdef'' ! (n mod 16) \<in> set ''0123456789abcdef''"
    by (rule nth_mem)
  then show ?thesis
    unfolding hex_digit_def is_lower_hex_digit_def .
qed

lemma to_hex_lower: "list_all is_lower_hex_digit (to_hex n)"
  by (induction n rule: to_hex.induct) (subst to_hex.simps, simp add: hex_digit_lower)

lemma to_hex_length: "n < 256 \<Longrightarrow> length (to_hex n) = (if n < 16 then 1 else 2)"
  by (subst to_hex.simps, simp, subst to_hex.simps, simp)

lemma zero_lower_hex: "is_lower_hex_digit (CHR ''0'')"
  by (simp add: is_lower_hex_digit_def)

lemma format_02x_lower: "list_all is_lower_hex_digit (format_02x n)"
  using to_hex_lower[of n] zero_lower_hex
  by (auto simp: format_02x_def list_all_iff)

lemma format_02x_length: "n \<le> 255 \<Longrightarrow> length (format_02x n) = 2"
  using to_hex_length[of n] by (auto simp: format_02x_def)

lemma lower_hex_digits_fixed: "list_all (\<lambda>c. lower_char c = c) ''0123456789abcdef''"
  by (simp add: lower_char_def)

lemma lower_char_lower_hex: "is_lower_hex_digit c \<Longrightarrow> lower_char c = c"
  using lower_hex_digits_fixed unfolding is_lower_hex_digit_def list_all_iff by blast

lemma lower_hash: "lower_char (CHR ''#'') = CHR ''#''"
  by (simp add: lower_char_def)

lemma lower_lower_hex_color: "is_lower_hex_color s \<Longrightarrow> lower s = s"
  by (cases s) (auto simp: is_lower_hex_color_def lower_def lower_hash list_all_iff
      lower_char_lower_hex intro!: map_idI)

lemma format_hex_color_shape:
  "\<exists>cs. format_hex_color r g b = CHR ''#'' # cs \<and> list_all is_lower_hex_digit cs"
  using format_02x_lower[of r] format_02x_lower[of g] format_02x_lower[of b]
  by (simp add: format_hex_color_def)

lemma format_hex_color_ok:
  "r \<le> 255 \<Longrightarrow> g \<le> 255 \<Longrightarrow> b \<le> 255 \<Longrightarrow> is_lower_hex_color (format_hex_color r g b)"
  using format_02x_lower[of r] format_02x_lower[of g] format_02x_lower[of b]
    format_02x_length[of r] format_02x_length[of g] format_02x_length[of b]
  by (simp add: is_lower_hex_color_def format_hex_color_def)

lemma rgb_to_hex_lower: "rgb_to_hex x = Some h \<Longrightarrow> is_lower_hex_color h"
  by (auto simp: rgb_to_hex_def Let_def format_hex_color_ok split: option.splits if_splits)

lemma newline_not_lower_hex: "\<not> is_lower_hex_digit (CHR 0x0A)"
  by (simp add: is_lower_hex_digit_def)

lemma hex6_match_lower:
  assumes "hex6_match (CHR ''#'' # cs)" and "list_all is_lower_hex_digit cs"
  shows "is_lower_hex_color (CHR ''#'' # cs)"
proof -
  from assms(1) have len: "length (take 6 cs) = 6"
    and tl: "drop 6 cs = [] \<or> drop 6 cs = [CHR 0x0A]"
    by (auto simp: hex6_match_def)
  have "drop 6 cs \<noteq> [CHR 0x0A]"
  proof
    assume d: "drop 6 cs = [CHR 0x0A]"
    have "set (drop 6 cs) \<subseteq> set cs" by (rule set_drop_subset)
    with d have "CHR 0x0A \<in> set cs" by simp
    with assms(2) show False using newline_not_lower_hex by (auto simp: list_all_iff)
  qed
  with tl have "drop 6 cs = []" by simp
  with len have "length cs = 6" by (simp add: min_def split: if_splits)
  with assms(2) show ?thesis by (simp add: is_lower_hex_color_def)
qed

lemma finite_valid_hex_colors: "finite (valid_hex_colors d c r)"
  by (simp add: valid_hex_colors_def all_hex_colors_def Let_def)

lemma valid_hex_colors_lower:
  assumes "x \<in> valid_hex_colors d c r"
  shows "is_lower_hex_color x"
proof -
  from assms have m: "hex6_match x" and mem: "Some x \<in> all_hex_colors d c r"
    by (auto simp: valid_hex_colors_def)
  from mem consider (dom) "x \<in> set (hex_dominant_colors d)"
    | (conv) s where "rgb_to_hex (Some s) = Some x"
    by (auto simp: all_hex_colors_def Let_def)
  then show ?thesis
  proof cases
    case dom
    then obtain rr g b where "x = format_hex_color rr g b"
      by (auto simp: hex_dominant_colors_def)
    with format_hex_color_shape[of rr g b] m show ?thesis
      by (auto intro: hex6_match_lower)
  next
    case conv
    then show ?thesis by (rule rgb_to_hex_lower)
  qed
qed

lemma default_colors_lower:
  "is_lower_hex_color ''#ffffff''" "is_lower_hex_color ''#000000''"
  "is_lower_hex_color ''#0000ff''" "is_lower_hex_color ''#d3d3d3''"
  "is_lower_hex_color ''#ffa500''"
  by (simp_all add: is_lower_hex_color_def is_lower_hex_digit_def)

lemma body_colors_lower:
  "is_lower_hex_color (fst (body_colors q)) \<and> is_lower_hex_color (snd (body_colors q))"
  by (auto simp: body_colors_def default_colors_lower rgb_to_hex_lower
      split: option.splits prod.splits)

lemma filter_nth_mem: "i < length (filter P xs) \<Longrightarrow> filter P xs ! i \<in> set xs"
  using nth_mem[of i "filter P xs"] by auto

lemma pick_mem:
  "y \<in> set xs \<Longrightarrow> (if filter P xs \<noteq> [] then filter P xs ! 0 else y) \<in> set xs"
  using filter_nth_mem[of 0 P xs] by auto

lemma assign_roles_mem:
  assumes "assign_roles xs bg txt = (p, s, a)"
  shows "p \<in> set xs \<union> {bg, txt, ''#0000ff'', ''#d3d3d3'', ''#ffa500''}
       \<and> s \<in> set xs \<union> {bg, txt, ''#0000ff'', ''#d3d3d3'', ''#ffa500''}
       \<and> a \<in> set xs \<union> {bg, txt, ''#0000ff'', ''#d3d3d3'', ''#ffa500''}"
proof -
  let ?ng = "filter (\<lambda>c. lower c \<notin> set [lower bg, lower txt] \<and> \<not> is_gray c) xs"
  consider (enough) "3 \<le> length ?ng"
    | (three) "\<not> 3 \<le> length ?ng" "3 \<le> length xs"
    | (two) "\<not> 3 \<le> length ?ng" "length xs = 2"
    | (one) "\<not> 3 \<le> length ?ng" "length xs = 1"
    | (none) "\<not> 3 \<le> length ?ng" "length xs = 0"
    by arith
  then show ?thesis
  proof cases
    case enough
    with assms have "p = ?ng ! 0" "s = ?ng ! 1" "a = ?ng ! 2"
      by (auto simp add: assign_roles_def Let_def)
    moreover from enough have "?ng ! 0 \<in> set xs" "?ng ! 1 \<in> set xs" "?ng ! 2 \<in> set xs"
      by (auto intro!: filter_nth_mem)
    ultimately show ?thesis by simp
  next
    case three
    let ?pp = "filter (\<lambda>c. lower c \<notin> set [lower bg, lower txt]) xs"
    let ?p = "if ?pp \<noteq> [] then ?pp ! 0 else xs ! 0"
    let ?ps = "filter (\<lambda>c. lower c \<notin> set [lower bg, lower txt, lower ?p]) xs"
    let ?s = "if ?ps \<noteq> [] then ?ps ! 0 else if length xs > 1 then xs ! 1 else ?p"
    let ?pa = "filter (\<lambda>c. lower c \<notin> set [lower bg, lower txt, lower ?p, lower ?s]) xs"
    let ?a = "if ?pa \<noteq> [] then ?pa ! 0 else if length xs > 2 then xs ! 2 else ?s"
    from three have l0: "0 < length xs" and l1: "1 < length xs" and l2: "2 < length xs"
      by auto
    have "assign_roles xs bg txt = (?p, ?s, ?a)"
      unfolding assign_roles_def Let_def
      by (simp only: three if_False if_True)
    with assms[symmetric] have E: "(p, s, a) = (?p, ?s, ?a)" by (rule trans)
    have eqs: "p = ?p" "s = ?s" "a = ?a"
      using arg_cong[OF E, of fst] arg_cong[OF E, of "\<lambda>t. fst (snd t)"]
        arg_cong[OF E, of "\<lambda>t. snd (snd t)"]
      by (simp_all only: fst_conv snd_conv)
    have "xs ! 0 \<in> set xs" using l0 by (rule nth_mem)
    then have P: "?p \<in> set xs" by (rule pick_mem)
    have "xs ! 1 \<in> set xs" using l1 by (rule nth_mem)
    with l1 have "(if length xs > 1 then xs ! 1 else ?p) \<in> set xs" by (simp only: if_True)
    then have S: "?s \<in> set xs" by (rule pick_mem)
    have "xs ! 2 \<in> set xs" using l2 by (rule nth_mem)
    with l2 have "(if length xs > 2 then xs ! 2 else ?s) \<in> set xs" by (simp only: if_True)
    then have A: "?a \<in> set xs" by (rule pick_mem)
    from P S A show ?thesis unfolding eqs by blast
  next
    case two
    with assms have "p = xs ! 0" "s = xs ! 1" "a = xs ! 0"
      by (auto simp add: assign_roles_def Let_def)
    with two show ?thesis by simp
  next
    case one
    with assms have "p = xs ! 0" "s = txt \<or> s = bg" "a = xs ! 0"
      by (auto simp add: assign_roles_def Let_def split: if_splits)
    with one show ?thesis by auto
  next
    case none
    with assms show ?thesis by (simp add: assign_roles_def Let_def)
  qed
qed

lemma palette_props:
  assumes "finite V"
  shows "set (take 15 (sorted_list_of_set V)) \<subseteq> V"
    and "distinct (take 15 (sorted_list_of_set V))"
    and "length (take 15 (sorted_list_of_set V)) \<le> 15"
    and "sorted (take 15 (sorted_list_of_set V))"
proof -
  have "set (take 15 (sorted_list_of_set V)) \<subseteq> set (sorted_list_of_set V)"
    by (rule set_take_subset)
  with assms show "set (take 15 (sorted_list_of_set V)) \<subseteq> V" by simp
  show "distinct (take 15 (sorted_list_of_set V))" by (simp add: distinct_take)
  show "length (take 15 (sorted_list_of_set V)) \<le> 15" by simp
  show "sorted (take 15 (sorted_list_of_set V))" by (simp add: sorted_wrt_take)
qed

lemma extract_color_palette_fields:
  assumes "body_colors b = (bg, txt)"
    and "assign_roles (set_order (valid_hex_colors d c r)) bg txt = (p, s, a)"
  shows "extract_color_palette set_order d c r b =
         \<lparr>primary_color = p, secondary_color = s, accent_color = a, background_color = bg,
          text_color = txt, palette = take 15 (sorted_list_of_set (valid_hex_colors d c r))\<rparr>"
  using assms by (simp add: extract_color_palette_def Let_def)

text \<open>
  C5. Every color that the resolver emits, the five role colors and every palette entry,
  is \<open>#\<close> followed by six lowercase hex digits; the palette has at most 15 entries and
  no two of them are equal up to letter case. The iteration order of the color set is any
  enumeration of it.
\<close>

theorem color_fields_canonical:
  assumes "iteration_of (set_order (valid_hex_colors d c r)) (valid_hex_colors d c r)"
  shows "is_lower_hex_color (primary_color (extract_color_palette set_order d c r b))
       \<and> is_lower_hex_color (secondary_color (extract_color_palette set_order d c r b))
       \<and> is_lower_hex_color (accent_color (extract_color_palette set_order d c r b))
       \<and> is_lower_hex_color (background_color (extract_color_palette set_order d c r b))
       \<and> is_lower_hex_color (text_color (extract_color_palette set_order d c r b))
       \<and> list_all is_lower_hex_color (palette (extract_color_palette set_order d c r b))
       \<and> length (palette (extract_color_palette set_order d c r b)) \<le> 15
       \<and> distinct (map lower (palette (extract_color_palette set_order d c r b)))"
proof -
  let ?V = "valid_hex_colors d c r"
  let ?pal = "take 15 (sorted_list_of_set ?V)"
  obtain bg tc where bc: "body_colors b = (bg, tc)" by (cases "body_colors b")
  obtain p s a where ar: "assign_roles (set_order ?V) bg tc = (p, s, a)"
    by (cases "assign_roles (set_order ?V) bg tc")
  have fields: "extract_color_palette set_order d c r b =
      \<lparr>primary_color = p, secondary_color = s, accent_color = a, background_color = bg,
       text_color = tc, palette = ?pal\<rparr>"
    using bc ar by (rule extract_color_palette_fields)
  from body_colors_lower[of b] bc have bgl: "is_lower_hex_color bg"
    and txtl: "is_lower_hex_color tc" by simp_all
  from assms have so: "set (set_order ?V) = ?V" by (simp add: iteration_of_def)
  have ok: "is_lower_hex_color x"
    if "x \<in> set (set_order ?V) \<union> {bg, tc, ''#0000ff'', ''#d3d3d3'', ''#ffa500''}" for x
    using that so valid_hex_colors_lower[of x d c r] bgl txtl default_colors_lower by auto
  from assign_roles_mem[OF ar] ok have roles: "is_lower_hex_color p" "is_lower_hex_color s"
    "is_lower_hex_color a" by blast+
  have palsub: "set ?pal \<subseteq> ?V" by (rule palette_props(1)[OF finite_valid_hex_colors])
  then have pall: "list_all is_lower_hex_color ?pal"
    using valid_hex_colors_lower by (auto simp: list_all_iff)
  then have "map lower ?pal = ?pal"
    by (intro map_idI) (auto simp: list_all_iff lower_lower_hex_color)
  moreover have "distinct ?pal" by (rule palette_props(2)[OF finite_valid_hex_colors])
  ultimately have dist: "distinct (map lower ?pal)" by simp
  have len: "length ?pal \<le> 15" by simp
  show ?thesis
    unfolding fields using roles bgl txtl pall dist len by simp
qed

theorem color_fields_canonical_witness:
  "iteration_of
     (ascending_order
        (valid_hex_colors [(255, 0, 0), (300, 255, 0), (17, 17, 17)] [''rgb(1,2,3)'', ''red'']
           [''rgba(255, 0,0, 0.3)'', ''#abcdef'']))
     (valid_hex_colors [(255, 0, 0), (300, 255, 0), (17, 17, 17)] [''rgb(1,2,3)'', ''red'']
        [''rgba(255, 0,0, 0.3)'', ''#abcdef''])
   \<and> is_lower_hex_color
       (primary_color
          (extract_color_palette ascending_order [(255, 0, 0), (300, 255, 0), (17, 17, 17)]
             [''rgb(1,2,3)'', ''red''] [''rgba(255, 0,0, 0.3)'', ''#abcdef'']
             (Some (Some ''rgb(255, 255, 255)'', None))))
   \<and> list_all is_lower_hex_color
       (palette
          (extract_color_palette ascending_order [(255, 0, 0), (300, 255, 0), (17, 17, 17)]
             [''rgb(1,2,3)'', ''red''] [''rgba(255, 0,0, 0.3)'', ''#abcdef'']
             (Some (Some ''rgb(255, 255, 255)'', None))))"
proof -
  let ?V = "valid_hex_colors [(255, 0, 0), (300, 255, 0), (17, 17, 17)] [''rgb(1,2,3)'', ''red'']
        [''rgba(255, 0,0, 0.3)'', ''#abcdef'']"
  have h: "iteration_of (ascending_order ?V) ?V"
    by (simp add: iteration_of_def ascending_order_def finite_valid_hex_colors)
  from h color_fields_canonical[of ascending_order "[(255, 0, 0), (300, 255, 0), (17, 17, 17)]"
      "[''rgb(1,2,3)'', ''red'']" "[''rgba(255, 0,0, 0.3)'', ''#abcdef'']"
      "Some (Some ''rgb(255, 255, 255)'', None)"]
  show ?thesis by blast
qed


lemma no_rgb_no_colors:
  assumes "\<forall>v \<in> set computed \<union> set css. \<not> contains ''rgb'' (lower v)"
  shows "valid_hex_colors d computed css = valid_hex_colors d [] []"
proof -
  from assms have n: "\<And>v. v \<in> set computed \<union> set css \<Longrightarrow> rgb_to_hex (Some v) = None"
    by (simp add: rgb_to_hex_def)
  have "all_hex_colors d computed css \<subseteq> insert None (all_hex_colors d [] [])"
    using n by (auto simp: all_hex_colors_def Let_def)
  moreover have "all_hex_colors d [] [] \<subseteq> all_hex_colors d computed css"
    by (auto simp: all_hex_colors_def Let_def)
  ultimately have "Set.filter (\<lambda>c. c \<noteq> None \<and> hex6_match (the c)) (all_hex_colors d computed css)
      = Set.filter (\<lambda>c. c \<noteq> None \<and> hex6_match (the c)) (all_hex_colors d [] [])"
    by (auto simp del: not_None_eq)
  then show ?thesis by (simp only: valid_hex_colors_def)
qed

text \<open>
  C10. \<open>rgb_to_hex\<close> returns \<open>None\<close> or \<open>#\<close> followed by six lowercase hex digits.
  A string without the substring \<open>rgb\<close> (in any letter case) gives \<open>None\<close>, so such values
  among the computed styles and the style rule values add nothing to the set of valid
  colors.
\<close>

theorem rgb_to_hex_none_or_canonical:
  "(rgb_to_hex x = None \<or> (\<exists>h. rgb_to_hex x = Some h \<and> is_lower_hex_color h))
   \<and> (\<not> contains ''rgb'' (lower s) \<longrightarrow> rgb_to_hex (Some s) = None)
   \<and> ((\<forall>v \<in> set computed \<union> set css. \<not> contains ''rgb'' (lower v)) \<longrightarrow>
        valid_hex_colors d computed css = valid_hex_colors d [] [])"
proof (intro conjI impI)
  show "rgb_to_hex x = None \<or> (\<exists>h. rgb_to_hex x = Some h \<and> is_lower_hex_color h)"
    using rgb_to_hex_lower[of x] by (cases "rgb_to_hex x") auto
  show "rgb_to_hex (Some s) = None" if "\<not> contains ''rgb'' (lower s)"
    using that by (simp add: rgb_to_hex_def)
  show "valid_hex_colors d computed css = valid_hex_colors d [] []"
    if "\<forall>v \<in> set computed \<union> set css. \<not> contains ''rgb'' (lower v)"
    using that by (rule no_rgb_no_colors)
qed

theorem rgb_to_hex_none_or_canonical_witness:
  "\<not> contains ''rgb'' (lower ''#FF0000'') \<and> rgb_to_hex (Some ''#FF0000'') = None
   \<and> \<not> contains ''rgb'' (lower ''red'') \<and> \<not> contains ''rgb'' (lower ''#00ff00'')
   \<and> valid_hex_colors [(1, 2, 3)] [''red''] [''#00ff00''] = valid_hex_colors [(1, 2, 3)] [] []
   \<and> rgb_to_hex (Some ''rgba(255, 0, 10, 0.5)'') = Some ''#ff000a''
   \<and> is_lower_hex_color ''#ff000a''"
proof -
  have a: "\<not> contains ''rgb'' (lower ''#FF0000'')"
    by (simp add: lower_def lower_char_def)
  have b1: "\<not> contains ''rgb'' (lower ''red'')"
    and b2: "\<not> contains ''rgb'' (lower ''#00ff00'')"
    by (simp_all add: lower_def lower_char_def)
  from b1 b2 have b: "\<forall>v \<in> set [''red''] \<union> set [''#00ff00'']. \<not> contains ''rgb'' (lower v)"
    by simp
  have c: "rgb_to_hex (Some ''rgba(255, 0, 10, 0.5)'') = Some ''#ff000a''"
    by code_simp
  note T = rgb_to_hex_none_or_canonical[of "Some ''rgba(255, 0, 10, 0.5)''" "''#FF0000''"
      "[''red'']" "[''#00ff00'']" "[(1, 2, 3)]"]
  from T a have a': "rgb_to_hex (Some ''#FF0000'') = None" by blast
  from T b have b': "valid_hex_colors [(1, 2, 3)] [''red''] [''#00ff00'']
      = valid_hex_colors [(1, 2, 3)] [] []" by blast
  from T have "rgb_to_hex (Some ''rgba(255, 0, 10, 0.5)'') = None
      \<or> (\<exists>h. rgb_to_hex (Some ''rgba(255, 0, 10, 0.5)'') = Some h \<and> is_lower_hex_color h)"
    by (rule conjunct1)
  then have d: "is_lower_hex_color ''#ff000a''" unfolding c by simp
  from a a' b1 b2 b' c d show ?thesis by (intro conjI)
qed

subsection \<open>Color resolver: roles and palette\<close>

text \<open>
  C1. The claim is that the role colors are a function of the raw signals. In the code the
  candidates are taken from \<open>sorted_colors = list(valid_hex_colors)\<close>, a list made from
  a set and never sorted, so the roles follow the iteration order of that set. On the
  same signals, two iteration orders of the same set give different primary colors, while
  the palette, which is sorted, is the same.
\<close>

theorem roles_follow_iteration_order:
  "primary_color (extract_color_palette ascending_order [(255, 0, 0), (0, 255, 0), (0, 0, 255)]
       [] [] (Some (Some ''rgb(255, 255, 255)'', Some ''rgb(0, 0, 0)''))) = ''#0000ff''
   \<and> primary_color (extract_color_palette descending_order
       [(255, 0, 0), (0, 255, 0), (0, 0, 255)]
       [] [] (Some (Some ''rgb(255, 255, 255)'', Some ''rgb(0, 0, 0)''))) = ''#ff0000''
   \<and> iteration_of (ascending_order (valid_hex_colors [(255, 0, 0), (0, 255, 0), (0, 0, 255)] [] []))
         (valid_hex_colors [(255, 0, 0), (0, 255, 0), (0, 0, 255)] [] [])
   \<and> iteration_of (descending_order (valid_hex_colors [(255, 0, 0), (0, 255, 0), (0, 0, 255)] [] []))
         (valid_hex_colors [(255, 0, 0), (0, 255, 0), (0, 0, 255)] [] [])
   \<and> palette (extract_color_palette ascending_order [(255, 0, 0), (0, 255, 0), (0, 0, 255)]
       [] [] (Some (Some ''rgb(255, 255, 255)'', Some ''rgb(0, 0, 0)'')))
     = palette (extract_color_palette descending_order [(255, 0, 0), (0, 255, 0), (0, 0, 255)]
       [] [] (Some (Some ''rgb(255, 255, 255)'', Some ''rgb(0, 0, 0)'')))"
  by code_simp

text \<open>
  C2 as stated fails: red is discovered before blue, and the palette lists blue first.
\<close>

theorem palette_not_first_discovery:
  "palette (extract_color_palette ascending_order [(255, 0, 0), (0, 0, 255)] [] [] None)
     = [''#0000ff'', ''#ff0000'']
   \<and> first_discovery_palette [(255, 0, 0), (0, 0, 255)] [] [] = [''#ff0000'', ''#0000ff'']"
  by code_simp


lemma valid_hex_colors_cong:
  assumes "set d = set d'" "set c = set c'" "set r = set r'"
  shows "valid_hex_colors d c r = valid_hex_colors d' c' r'"
  using assms by (simp add: valid_hex_colors_def all_hex_colors_def hex_dominant_colors_def)

lemma palette_extract:
  "palette (extract_color_palette set_order d c r b)
     = take 15 (sorted_list_of_set (valid_hex_colors d c r))"
  by (simp add: extract_color_palette_def Let_def split: prod.splits)

lemma sorted_take_less_rest:
  fixes xs :: "'a::linorder list"
  assumes "sorted xs" "distinct xs" "x \<in> set (take n xs)" "y \<in> set xs - set (take n xs)"
  shows "x < y"
proof -
  have split: "xs = take n xs @ drop n xs" by simp
  from assms(4) have "y \<in> set (drop n xs)"
    using split by (metis DiffD1 DiffD2 Un_iff set_append)
  moreover from assms(1) have "sorted (take n xs @ drop n xs)" by simp
  then have "\<forall>u \<in> set (take n xs). \<forall>v \<in> set (drop n xs). u \<le> v"
    unfolding sorted_append by blast
  ultimately have "x \<le> y" using assms(3) by blast
  moreover from assms(3,4) have "x \<noteq> y" by auto
  ultimately show ?thesis by simp
qed

text \<open>
  C2 (amended). The palette is in ascending lexicographic order without repetition: it
  holds the \<open>min 15 n\<close> smallest of the \<open>n\<close> valid colors, and depends neither on the
  order in which the colors were discovered nor on the iteration order of the color set.
\<close>

theorem palette_is_sorted_prefix:
  "sorted (palette (extract_color_palette set_order d c r b))
   \<and> distinct (palette (extract_color_palette set_order d c r b))
   \<and> set (palette (extract_color_palette set_order d c r b)) \<subseteq> valid_hex_colors d c r
   \<and> length (palette (extract_color_palette set_order d c r b))
        = min 15 (card (valid_hex_colors d c r))
   \<and> (\<forall>x \<in> set (palette (extract_color_palette set_order d c r b)).
        \<forall>y \<in> valid_hex_colors d c r - set (palette (extract_color_palette set_order d c r b)).
          x < y)
   \<and> (set d = set d' \<and> set c = set c' \<and> set r = set r' \<longrightarrow>
        palette (extract_color_palette set_order d c r b)
          = palette (extract_color_palette set_order' d' c' r' b'))"
proof -
  let ?V = "valid_hex_colors d c r"
  let ?xs = "sorted_list_of_set ?V"
  have fin: "finite ?V" by (rule finite_valid_hex_colors)
  have pal: "palette (extract_color_palette set_order d c r b) = take 15 ?xs"
    by (rule palette_extract)
  have s: "sorted (take 15 ?xs)" "distinct (take 15 ?xs)" "set (take 15 ?xs) \<subseteq> ?V"
    using palette_props[OF fin] by simp_all
  have l: "length (take 15 ?xs) = min 15 (card ?V)"
    by (simp add: min.commute)
  have less: "\<forall>x \<in> set (take 15 ?xs). \<forall>y \<in> ?V - set (take 15 ?xs). x < y"
  proof (intro ballI)
    fix x y assume "x \<in> set (take 15 ?xs)" "y \<in> ?V - set (take 15 ?xs)"
    moreover have "set ?xs = ?V" using fin by simp
    ultimately show "x < y"
      using sorted_take_less_rest[of ?xs x 15 y] by simp
  qed
  have inv: "palette (extract_color_palette set_order d c r b)
          = palette (extract_color_palette set_order' d' c' r' b')"
    if "set d = set d' \<and> set c = set c' \<and> set r = set r'"
    using that valid_hex_colors_cong[of d d' c c' r r'] by (simp add: palette_extract)
  show ?thesis
    unfolding pal using s l less inv[unfolded pal] by blast
qed

theorem palette_is_sorted_prefix_witness:
  "set [(255 :: nat, 0 :: nat, 0 :: nat), (0, 0, 255)] = set [(0, 0, 255), (255, 0, 0), (255, 0, 0)]
   \<and> palette (extract_color_palette ascending_order [(255, 0, 0), (0, 0, 255)] [] [] None)
       = palette (extract_color_palette descending_order [(0, 0, 255), (255, 0, 0), (255, 0, 0)]
           [] [] None)
   \<and> sorted (palette (extract_color_palette ascending_order [(255, 0, 0), (0, 0, 255)] [] [] None))
   \<and> palette (extract_color_palette ascending_order [(255, 0, 0), (0, 0, 255)] [] [] None)
       = [''#0000ff'', ''#ff0000'']"
proof -
  have h: "set [(255 :: nat, 0 :: nat, 0 :: nat), (0, 0, 255)] = set [(0, 0, 255), (255, 0, 0), (255, 0, 0)]"
    by auto
  have v: "palette (extract_color_palette ascending_order [(255, 0, 0), (0, 0, 255)] [] [] None)
       = [''#0000ff'', ''#ff0000'']"
    by code_simp
  note T = palette_is_sorted_prefix[of ascending_order "[(255, 0, 0), (0, 0, 255)]" "[]" "[]"
      None "[(0, 0, 255), (255, 0, 0), (255, 0, 0)]" "[]" "[]" descending_order None]
  from T h have e: "palette (extract_color_palette ascending_order [(255, 0, 0), (0, 0, 255)] [] [] None)
       = palette (extract_color_palette descending_order [(0, 0, 255), (255, 0, 0), (255, 0, 0)]
           [] [] None)" by blast
  from T have s: "sorted (palette (extract_color_palette ascending_order
      [(255, 0, 0), (0, 0, 255)] [] [] None))" by (rule conjunct1)
  from h e s v show ?thesis by (intro conjI)
qed

subsection \<open>Style keywords\<close>


lemma finite_keyword_set: "finite (keyword_set cols typ lay comps imgs)"
  by (simp add: keyword_set_def)

lemma style_keywords_set:
  "set (style_keywords (generate_design_schema url now cols typ lay comps imgs))
     = keyword_set cols typ lay comps imgs"
  by (simp add: generate_design_schema_def finite_keyword_set)

lemma mem_if_set: "x \<in> (if b then A else B) \<longleftrightarrow> (b \<and> x \<in> A) \<or> (\<not> b \<and> x \<in> B)"
  by simp

lemma palette_keywords:
  "''limited-palette'' \<in> keyword_set cols typ lay comps imgs
     \<longleftrightarrow> palette cols \<noteq> [] \<and> length (palette cols) \<le> 4"
  "''high-contrast'' \<in> keyword_set cols typ lay comps imgs
     \<longleftrightarrow> length (palette cols) > 6"
  by (auto simp add: keyword_set_def mem_if_set split del: if_split)

lemma pair_keywords:
  "''rounded-corners'' \<in> keyword_set cols typ lay comps imgs \<longleftrightarrow> has_rounding comps imgs"
  "''sharp-corners'' \<in> keyword_set cols typ lay comps imgs \<longleftrightarrow> \<not> has_rounding comps imgs"
  "''uses-shadows'' \<in> keyword_set cols typ lay comps imgs \<longleftrightarrow> has_shadow comps imgs"
  "''flat-design'' \<in> keyword_set cols typ lay comps imgs \<longleftrightarrow> \<not> has_shadow comps imgs"
  "''serif-typography'' \<in> keyword_set cols typ lay comps imgs
     \<longleftrightarrow> list_ex (\<lambda>indicator. contains indicator (keyword_font typ)) serif_indicators"
  "''sans-serif-typography'' \<in> keyword_set cols typ lay comps imgs
     \<longleftrightarrow> \<not> list_ex (\<lambda>indicator. contains indicator (keyword_font typ)) serif_indicators"
  "''contained-width'' \<in> keyword_set cols typ lay comps imgs
     \<longleftrightarrow> container_width lay \<noteq> None \<and> container_width lay \<noteq> Some 0"
  "''full-width-layout'' \<in> keyword_set cols typ lay comps imgs
     \<longleftrightarrow> \<not> (container_width lay \<noteq> None \<and> container_width lay \<noteq> Some 0)"
  by (simp_all add: keyword_set_def mem_if_set split del: if_split)


lemma extract_color_palette_empty:
  assumes "valid_hex_colors d c r = {}" and "set_order {} = []"
  shows "extract_color_palette set_order d c r b =
         \<lparr>primary_color = ''#0000ff'', secondary_color = ''#d3d3d3'', accent_color = ''#ffa500'',
          background_color = fst (body_colors b), text_color = snd (body_colors b),
          palette = []\<rparr>"
  using assms
  by (simp add: extract_color_palette_def Let_def assign_roles_def split: prod.splits)

text \<open>
  C3 as stated fails: on a page without any color the roles and the palette are as the
  claim says, but the keywords do not include \<open>limited-palette\<close>.
\<close>

theorem blank_page_no_limited_palette:
  "valid_hex_colors [] [] [] = {}
   \<and> primary_color (colors blank_page_schema) = ''#0000ff''
   \<and> secondary_color (colors blank_page_schema) = ''#d3d3d3''
   \<and> accent_color (colors blank_page_schema) = ''#ffa500''
   \<and> palette (colors blank_page_schema) = []
   \<and> ''limited-palette'' \<notin> set (style_keywords blank_page_schema)"
  by code_simp

text \<open>
  C3 (amended). If no valid color is detected from the three sources, the primary,
  secondary and accent colors are \<open>#0000ff\<close>, \<open>#d3d3d3\<close> and \<open>#ffa500\<close>, the palette
  is empty, and the keywords include neither \<open>limited-palette\<close> nor \<open>high-contrast\<close>:
  the palette keywords are derived for a non-empty palette only, \<open>limited-palette\<close> for
  1 to 4 entries and \<open>high-contrast\<close> for more than 6.
\<close>

theorem zero_colors_defaults:
  assumes "valid_hex_colors d c r = {}"
    and "iteration_of (set_order (valid_hex_colors d c r)) (valid_hex_colors d c r)"
  shows "primary_color (extract_color_palette set_order d c r b) = ''#0000ff''
       \<and> secondary_color (extract_color_palette set_order d c r b) = ''#d3d3d3''
       \<and> accent_color (extract_color_palette set_order d c r b) = ''#ffa500''
       \<and> palette (extract_color_palette set_order d c r b) = []
       \<and> ''limited-palette'' \<notin> set (style_keywords (generate_design_schema url now
               (extract_color_palette set_order d c r b) tp lay comps imgs))
       \<and> ''high-contrast'' \<notin> set (style_keywords (generate_design_schema url now
               (extract_color_palette set_order d c r b) tp lay comps imgs))
       \<and> (''limited-palette'' \<in> set (style_keywords (generate_design_schema url now
               cols tp lay comps imgs))
            \<longleftrightarrow> 1 \<le> length (palette cols) \<and> length (palette cols) \<le> 4)
       \<and> (''high-contrast'' \<in> set (style_keywords (generate_design_schema url now
               cols tp lay comps imgs))
            \<longleftrightarrow> 6 < length (palette cols))"
proof -
  from assms have so: "set_order {} = []" by (simp add: iteration_of_def)
  note e = extract_color_palette_empty[where set_order = set_order and b = b, OF assms(1) so]
  have k1: "''limited-palette'' \<in> set (style_keywords (generate_design_schema url now
               cols tp lay comps imgs))
            \<longleftrightarrow> 1 \<le> length (palette cols) \<and> length (palette cols) \<le> 4" for cols
    unfolding style_keywords_set palette_keywords by (cases "palette cols") auto
  have k2: "''high-contrast'' \<in> set (style_keywords (generate_design_schema url now
               cols tp lay comps imgs))
            \<longleftrightarrow> 6 < length (palette cols)" for cols
    unfolding style_keywords_set palette_keywords by simp
  show ?thesis
    unfolding k1 k2 unfolding e by simp
qed

theorem zero_colors_defaults_witness:
  "valid_hex_colors [] [''red'', ''#00ff00''] [''inherit''] = {}
   \<and> primary_color (extract_color_palette ascending_order [] [''red'', ''#00ff00''] [''inherit'']
        None) = ''#0000ff''
   \<and> palette (extract_color_palette ascending_order [] [''red'', ''#00ff00''] [''inherit'']
        None) = []
   \<and> ''limited-palette'' \<notin> set (style_keywords (generate_design_schema ''http://example.com''
         ''2024-01-01T00:00:00''
         (extract_color_palette ascending_order [] [''red'', ''#00ff00''] [''inherit''] None)
         (extract_typography None no_headings_found)
         (analyze_layout (1920, 1080) None False []) initial_components initial_image_info))"
proof -
  have v: "valid_hex_colors [] [''red'', ''#00ff00''] [''inherit''] = {}"
    by code_simp
  have i: "iteration_of (ascending_order (valid_hex_colors [] [''red'', ''#00ff00''] [''inherit'']))
      (valid_hex_colors [] [''red'', ''#00ff00''] [''inherit''])"
    unfolding v by (simp add: iteration_of_def ascending_order_def)
  note T = zero_colors_defaults[where set_order = ascending_order and b = None
      and url = "''http://example.com''" and now = "''2024-01-01T00:00:00''"
      and tp = "extract_typography None no_headings_found"
      and lay = "analyze_layout (1920, 1080) None False []"
      and comps = initial_components and imgs = initial_image_info, OF v i]
  from v T show ?thesis by blast
qed

text \<open>
  C4. The keywords of an assembled schema contain exactly one of \<open>rounded-corners\<close> and
  \<open>sharp-corners\<close>, exactly one of \<open>uses-shadows\<close> and \<open>flat-design\<close>, exactly one of
  \<open>serif-typography\<close> and \<open>sans-serif-typography\<close>, exactly one of \<open>contained-width\<close>
  and \<open>full-width-layout\<close>, and they are in ascending alphabetical order without
  repetition.
\<close>

theorem style_keyword_pairs:
  "(let kws = style_keywords (generate_design_schema url now cols tp lay comps imgs) in
     ((''rounded-corners'' \<in> set kws) \<noteq> (''sharp-corners'' \<in> set kws))
   \<and> ((''uses-shadows'' \<in> set kws) \<noteq> (''flat-design'' \<in> set kws))
   \<and> ((''serif-typography'' \<in> set kws) \<noteq> (''sans-serif-typography'' \<in> set kws))
   \<and> ((''contained-width'' \<in> set kws) \<noteq> (''full-width-layout'' \<in> set kws))
   \<and> sorted kws \<and> distinct kws)"
proof -
  have "sorted (style_keywords (generate_design_schema url now cols tp lay comps imgs))"
    "distinct (style_keywords (generate_design_schema url now cols tp lay comps imgs))"
    by (simp_all add: generate_design_schema_def)
  then show ?thesis
    unfolding Let_def style_keywords_set pair_keywords by blast
qed

theorem style_keyword_pairs_witness:
  "style_keywords blank_page_schema
     = [''flat-design'', ''full-width-layout'', ''serif-typography'', ''sharp-corners'']
   \<and> ((''rounded-corners'' \<in> set (style_keywords blank_page_schema))
        \<noteq> (''sharp-corners'' \<in> set (style_keywords blank_page_schema)))
   \<and> sorted (style_keywords blank_page_schema)"
proof -
  have v: "style_keywords blank_page_schema
     = [''flat-design'', ''full-width-layout'', ''serif-typography'', ''sharp-corners'']"
    by code_simp
  have T: "((''rounded-corners'' \<in> set (style_keywords blank_page_schema))
        \<noteq> (''sharp-corners'' \<in> set (style_keywords blank_page_schema)))
   \<and> ((''uses-shadows'' \<in> set (style_keywords blank_page_schema))
        \<noteq> (''flat-design'' \<in> set (style_keywords blank_page_schema)))
   \<and> ((''serif-typography'' \<in> set (style_keywords blank_page_schema))
        \<noteq> (''sans-serif-typography'' \<in> set (style_keywords blank_page_schema)))
   \<and> ((''contained-width'' \<in> set (style_keywords blank_page_schema))
        \<noteq> (''full-width-layout'' \<in> set (style_keywords blank_page_schema)))
   \<and> sorted (style_keywords blank_page_schema) \<and> distinct (style_keywords blank_page_schema)"
    unfolding blank_page_schema_def by (rule style_keyword_pairs[unfolded Let_def])
  from v T show ?thesis by blast
qed

subsection \<open>Spacing and corner-radius bases\<close>






subsection \<open>Typography\<close>


lemma dropWhile_hd: "dropWhile P xs \<noteq> [] \<Longrightarrow> \<not> P (hd (dropWhile P xs))"
  using hd_dropWhile[of P xs] by simp

lemma strip_ends:
  assumes "strip chars s \<noteq> []"
  shows "hd (strip chars s) \<notin> set chars \<and> last (strip chars s) \<notin> set chars"
proof -
  let ?P = "\<lambda>c. c \<in> set chars"
  let ?ys = "dropWhile ?P s"
  let ?zs = "dropWhile ?P (rev ?ys)"
  have st: "strip chars s = rev ?zs" by (simp add: strip_def)
  with assms have zne: "?zs \<noteq> []" by simp
  then have "\<not> ?P (hd ?zs)" by (rule dropWhile_hd)
  moreover have "last (rev ?zs) = hd ?zs" using zne by (simp add: last_rev)
  ultimately have l: "last (strip chars s) \<notin> set chars" unfolding st by simp
  have "rev ?ys = takeWhile ?P (rev ?ys) @ ?zs" by simp
  then have "?ys = rev ?zs @ rev (takeWhile ?P (rev ?ys))"
    by (metis rev_append rev_rev_ident)
  then have "hd ?ys = hd (rev ?zs)" using zne by (metis hd_append2 rev_is_Nil_conv)
  moreover have "?ys \<noteq> []"
  proof
    assume a: "?ys = []"
    have "?zs = []" unfolding a by simp
    with zne show False by (simp only:)
  qed
  then have "\<not> ?P (hd ?ys)" by (rule dropWhile_hd)
  ultimately have h: "hd (strip chars s) \<notin> set chars" unfolding st by simp
  from h l show ?thesis by simp
qed

lemma strip_quotes_unquoted: "unquoted (strip quote_chars s)"
  using strip_ends[of quote_chars s] by (auto simp: unquoted_def)

lemma sans_serif_unquoted: "unquoted ''sans-serif''"
  by (simp add: unquoted_def quote_chars_def)

lemma body_entry_unquoted: "unquoted (font_family (body_entry bq))"
  by (auto simp: body_entry_def strip_quotes_unquoted sans_serif_unquoted
      split: option.splits prod.splits)

lemma heading_entry_Some:
  assumes "heading_entry q = Some h"
  shows "\<exists>els e vs. q = Some els \<and> visible_elements els = Some (e # vs)
           \<and> truthy (fontFamily e) \<and> truthy (fontSize e) \<and> truthy (fontWeight e)
           \<and> h = \<lparr>heading_font_family = strip quote_chars (the (fontFamily e)),
                   heading_font_size = the (fontSize e),
                   heading_font_weight = the (fontWeight e)\<rparr>"
proof -
  from assms obtain els where q: "q = Some els" and ne: "els \<noteq> []"
    by (auto simp: heading_entry_def split: option.splits if_splits)
  from assms q ne obtain vis where v: "visible_elements els = Some vis" and vne: "vis \<noteq> []"
    by (auto simp: heading_entry_def split: option.splits if_splits)
  from vne obtain e vs where vis: "vis = e # vs" by (cases vis) auto
  from assms q ne v vis show ?thesis
    by (auto simp: heading_entry_def Let_def split: if_splits)
qed

lemma map_of_map_filter_Pair:
  "map_of (List.map_filter (\<lambda>t. map_option (Pair t) (f t)) tags) tag
     = (if tag \<in> set tags then f tag else None)"
proof (induction tags)
  case Nil
  then show ?case by simp
next
  case (Cons a tags)
  then show ?case
    by (cases "f a") auto
qed

lemma headings_lookup:
  "map_of (headings (extract_typography bq hq)) tag
     = (if tag \<in> set heading_tags then heading_entry (hq tag) else None)"
  by (simp add: extract_typography_def map_of_map_filter_Pair)


text \<open>
  C8. The body descriptor is always there: all four defaults when the body element cannot
  be found, otherwise each field is the computed value, or its own default when that value
  is missing or empty. A heading level has a descriptor only when its first visible
  element gave a font family, a font size and a font weight, and then it has that
  descriptor. All font families are without quote characters at either end.
\<close>

theorem typography_contract:
  "(bq = None \<longrightarrow>
      body (extract_typography bq hq)
        = \<lparr>font_family = ''sans-serif'', font_size = ''16px'', font_weight = ''400'',
           line_height = ''normal''\<rparr>)
   \<and> (bq = Some (f, sz, w, lh) \<longrightarrow>
        font_family (body (extract_typography bq hq))
          = (if truthy f then strip quote_chars (the f) else ''sans-serif'')
      \<and> font_size (body (extract_typography bq hq)) = (if truthy sz then the sz else ''16px'')
      \<and> font_weight (body (extract_typography bq hq)) = (if truthy w then the w else ''400'')
      \<and> line_height (body (extract_typography bq hq))
          = (if truthy lh then the lh else ''normal''))
   \<and> (map_of (headings (extract_typography bq hq)) tag = Some h \<longrightarrow>
        tag \<in> set heading_tags
      \<and> (\<exists>els e vs. hq tag = Some els \<and> visible_elements els = Some (e # vs)
            \<and> truthy (fontFamily e) \<and> truthy (fontSize e) \<and> truthy (fontWeight e)
            \<and> h = \<lparr>heading_font_family = strip quote_chars (the (fontFamily e)),
                    heading_font_size = the (fontSize e),
                    heading_font_weight = the (fontWeight e)\<rparr>)
      \<and> unquoted (heading_font_family h))
   \<and> (tag \<in> set heading_tags \<and> hq tag = Some els \<and> visible_elements els = Some (e # vs)
        \<and> truthy (fontFamily e) \<and> truthy (fontSize e) \<and> truthy (fontWeight e) \<longrightarrow>
        map_of (headings (extract_typography bq hq)) tag
          = Some \<lparr>heading_font_family = strip quote_chars (the (fontFamily e)),
                  heading_font_size = the (fontSize e),
                  heading_font_weight = the (fontWeight e)\<rparr>)
   \<and> unquoted (font_family (body (extract_typography bq hq)))"
proof (intro conjI impI)
  have b: "body (extract_typography q hq) = body_entry q" for q
    by (simp add: extract_typography_def)
  show "body (extract_typography bq hq)
        = \<lparr>font_family = ''sans-serif'', font_size = ''16px'', font_weight = ''400'',
           line_height = ''normal''\<rparr>" if "bq = None"
    using that by (simp add: b body_entry_def)
  show "font_family (body (extract_typography bq hq))
          = (if truthy f then strip quote_chars (the f) else ''sans-serif'')"
    if "bq = Some (f, sz, w, lh)"
    using that by (simp add: b body_entry_def)
  show "font_size (body (extract_typography bq hq)) = (if truthy sz then the sz else ''16px'')"
    if "bq = Some (f, sz, w, lh)"
    using that by (simp add: b body_entry_def)
  show "font_weight (body (extract_typography bq hq)) = (if truthy w then the w else ''400'')"
    if "bq = Some (f, sz, w, lh)"
    using that by (simp add: b body_entry_def)
  show "line_height (body (extract_typography bq hq))
          = (if truthy lh then the lh else ''normal'')"
    if "bq = Some (f, sz, w, lh)"
    using that by (simp add: b body_entry_def)
  show "unquoted (font_family (body (extract_typography bq hq)))"
    by (simp add: b body_entry_unquoted)
  show "map_of (headings (extract_typography bq hq)) tag
          = Some \<lparr>heading_font_family = strip quote_chars (the (fontFamily e)),
                  heading_font_size = the (fontSize e),
                  heading_font_weight = the (fontWeight e)\<rparr>"
    if "tag \<in> set heading_tags \<and> hq tag = Some els \<and> visible_elements els = Some (e # vs)
        \<and> truthy (fontFamily e) \<and> truthy (fontSize e) \<and> truthy (fontWeight e)"
  proof -
    from that have "els \<noteq> []" by auto
    with that show ?thesis
      by (simp add: headings_lookup heading_entry_def Let_def)
  qed
next
  assume a: "map_of (headings (extract_typography bq hq)) tag = Some h"
  then show t: "tag \<in> set heading_tags"
    by (simp add: headings_lookup split: if_splits)
  with a have he: "heading_entry (hq tag) = Some h" by (simp add: headings_lookup)
  from heading_entry_Some[OF he]
  show ex: "\<exists>els e vs. hq tag = Some els \<and> visible_elements els = Some (e # vs)
            \<and> truthy (fontFamily e) \<and> truthy (fontSize e) \<and> truthy (fontWeight e)
            \<and> h = \<lparr>heading_font_family = strip quote_chars (the (fontFamily e)),
                    heading_font_size = the (fontSize e),
                    heading_font_weight = the (fontWeight e)\<rparr>" .
  then show "unquoted (heading_font_family h)"
    using strip_quotes_unquoted by auto
qed

theorem typography_contract_witness:
  "map_of (headings (extract_typography (Some (Some (CHR 0x27 # ''Inter'' @ [CHR 0x27]), None,
        Some ''500'', Some [])) example_headings_found)) ''h1''
     = Some \<lparr>heading_font_family = ''Georgia'', heading_font_size = ''32px'',
             heading_font_weight = ''700''\<rparr>
   \<and> map_of (headings (extract_typography (Some (Some (CHR 0x27 # ''Inter'' @ [CHR 0x27]), None,
        Some ''500'', Some [])) example_headings_found)) ''h2'' = None
   \<and> body (extract_typography (Some (Some (CHR 0x27 # ''Inter'' @ [CHR 0x27]), None,
        Some ''500'', Some [])) example_headings_found)
     = \<lparr>font_family = ''Inter'', font_size = ''16px'', font_weight = ''500'',
        line_height = ''normal''\<rparr>
   \<and> unquoted (font_family (body (extract_typography (Some (Some (CHR 0x27 # ''Inter'' @ [CHR 0x27]),
        None, Some ''500'', Some [])) example_headings_found)))
   \<and> unquoted ''Georgia''"
proof -
  let ?bq = "Some (Some (CHR 0x27 # ''Inter'' @ [CHR 0x27]), None, Some ''500'', Some [])"
  let ?t = "extract_typography ?bq example_headings_found"
  have h1: "map_of (headings ?t) ''h1''
     = Some \<lparr>heading_font_family = ''Georgia'', heading_font_size = ''32px'',
             heading_font_weight = ''700''\<rparr>"
    by code_simp
  have h2: "map_of (headings ?t) ''h2'' = None" by code_simp
  have bd: "body ?t = \<lparr>font_family = ''Inter'', font_size = ''16px'', font_weight = ''500'',
        line_height = ''normal''\<rparr>"
    by code_simp
  note T = typography_contract[of ?bq example_headings_found
      "Some (CHR 0x27 # ''Inter'' @ [CHR 0x27])" None "Some ''500''" "Some []" "''h1''"
      "\<lparr>heading_font_family = ''Georgia'', heading_font_size = ''32px'',
             heading_font_weight = ''700''\<rparr>"]
  from T have u: "unquoted (font_family (body ?t))" by blast
  from T h1 have "unquoted (heading_font_family \<lparr>heading_font_family = ''Georgia'',
      heading_font_size = ''32px'', heading_font_weight = ''700''\<rparr>)" by blast
  then have g: "unquoted ''Georgia''" by simp
  from h1 h2 bd u g show ?thesis by (intro conjI)
qed

subsection \<open>Plugin enhancement\<close>


lemma enhance_loop_invoked:
  "invoked_plugins (enhance_loop ps t st)
     = invoked_plugins st @ map plugin_name (filter (\<lambda>p. applies_to p t) ps)"
proof (induction ps arbitrary: st)
  case Nil
  then show ?case by simp
next
  case (Cons p ps)
  show ?case
  proof (cases "applies_to p t")
    case True
    then show ?thesis
      by (cases "enhance_schema p (enhanced st)") (simp_all add: Cons.IH)
  next
    case False
    then show ?thesis by (simp add: Cons.IH)
  qed
qed

lemma enhance_loop_skip:
  "\<forall>p \<in> set ps. \<not> applies_to p t \<Longrightarrow> enhance_loop ps t st = st"
  by (induction ps arbitrary: st) simp_all

lemma enhance_loop_applied_prefix:
  "\<exists>names. applied_plugins (enhance_loop ps t st) = applied_plugins st @ names
      \<and> set names \<subseteq> set (map plugin_name (filter (\<lambda>p. applies_to p t) ps))"
proof (induction ps arbitrary: st)
  case Nil
  then show ?case by simp
next
  case (Cons p ps)
  show ?case
  proof (cases "applies_to p t")
    case False
    with Cons.IH[of st] show ?thesis by simp
  next
    case True
    show ?thesis
    proof (cases "enhance_schema p (enhanced st)")
      case (Returned s')
      let ?st = "\<lparr>enhanced = s', applied_plugins = applied_plugins st @ [plugin_name p],
                invoked_plugins = invoked_plugins st @ [plugin_name p]\<rparr>"
      from Cons.IH[of ?st] obtain names where
        "applied_plugins (enhance_loop ps t ?st) = applied_plugins ?st @ names"
        "set names \<subseteq> set (map plugin_name (filter (\<lambda>p. applies_to p t) ps))" by blast
      with True Returned show ?thesis
        by (intro exI[of _ "plugin_name p # names"]) auto
    next
      case (Raised s')
      let ?st = "\<lparr>enhanced = s', applied_plugins = applied_plugins st,
                invoked_plugins = invoked_plugins st @ [plugin_name p]\<rparr>"
      from Cons.IH[of ?st] obtain names where
        "applied_plugins (enhance_loop ps t ?st) = applied_plugins ?st @ names"
        "set names \<subseteq> set (map plugin_name (filter (\<lambda>p. applies_to p t) ps))" by blast
      with True Raised show ?thesis
        by (intro exI[of _ names]) auto
    qed
  qed
qed

text \<open>
  C9. The plugins whose \<open>enhance_schema\<close> is called are exactly those whose applicable
  types contain the detected site type, each once and in registry order, whether or not an
  earlier one raised; so a plugin that does not apply is not called and a failing plugin
  does not stop the later ones. When no plugin applies, the schema returned is the schema
  given and no plugin is recorded as applied.
\<close>

theorem plugins_dispatch:
  "invoked_plugins (enhance_with_plugins ps s t)
     = map plugin_name (filter (\<lambda>p. applies_to p t) ps)
   \<and> set (applied_plugins (enhance_with_plugins ps s t))
        \<subseteq> set (invoked_plugins (enhance_with_plugins ps s t))
   \<and> ((\<forall>p \<in> set ps. \<not> applies_to p t) \<longrightarrow>
        enhanced (enhance_with_plugins ps s t) = s
      \<and> applied_plugins (enhance_with_plugins ps s t) = []
      \<and> invoked_plugins (enhance_with_plugins ps s t) = [])
   \<and> (applies_to p t \<and> enhance_schema p s = Raised s' \<longrightarrow>
        invoked_plugins (enhance_with_plugins (p # ps) s t)
          = plugin_name p # map plugin_name (filter (\<lambda>p. applies_to p t) ps))"
proof -
  let ?st = "\<lparr>enhanced = s, applied_plugins = [], invoked_plugins = []\<rparr>"
  have inv: "invoked_plugins (enhance_with_plugins qs s t)
     = map plugin_name (filter (\<lambda>p. applies_to p t) qs)" for qs
    by (simp add: enhance_with_plugins_def enhance_loop_invoked)
  from enhance_loop_applied_prefix[of ps t ?st]
  have app: "set (applied_plugins (enhance_with_plugins ps s t))
        \<subseteq> set (invoked_plugins (enhance_with_plugins ps s t))"
    unfolding inv by (auto simp: enhance_with_plugins_def)
  have skip: "enhance_with_plugins ps s t = ?st" if "\<forall>p \<in> set ps. \<not> applies_to p t"
    using that by (simp add: enhance_with_plugins_def enhance_loop_skip)
  have raised: "invoked_plugins (enhance_with_plugins (p # ps) s t)
          = plugin_name p # map plugin_name (filter (\<lambda>p. applies_to p t) ps)"
    if "applies_to p t \<and> enhance_schema p s = Raised s'"
    using that by (simp add: inv)
  show ?thesis
    using inv[of ps] app skip raised by simp
qed

theorem plugins_dispatch_witness:
  "enhanced (enhance_with_plugins (get_plugins (Some ''twentytwenty'') None) blank_page_schema
       ''general'') = blank_page_schema
   \<and> invoked_plugins (enhance_with_plugins (get_plugins (Some ''twentytwenty'') None)
       blank_page_schema ''general'') = []
   \<and> invoked_plugins (enhance_with_plugins
       (failing_plugin # get_plugins (Some ''twentytwenty'') None) blank_page_schema ''wordpress'')
       = [''broken'', ''wordpress_enhancer'']
   \<and> applied_plugins (enhance_with_plugins
       (failing_plugin # get_plugins (Some ''twentytwenty'') None) blank_page_schema ''wordpress'')
       = [''wordpress_enhancer'']
   \<and> cms (metadata (enhanced (enhance_with_plugins
       (failing_plugin # get_plugins (Some ''twentytwenty'') None) blank_page_schema ''wordpress'')))
       = Some (''wordpress'', Some ''twentytwenty'')"
proof -
  let ?reg = "get_plugins (Some ''twentytwenty'') None"
  have na: "\<forall>p \<in> set ?reg. \<not> applies_to p ''general''"
    by (simp add: get_plugins_def WordPressPlugin_def applies_to_def)
  from plugins_dispatch[of ?reg blank_page_schema "''general''"] na
  have a: "enhanced (enhance_with_plugins ?reg blank_page_schema ''general'') = blank_page_schema"
    and b: "invoked_plugins (enhance_with_plugins ?reg blank_page_schema ''general'') = []"
    by blast+
  have f: "applies_to failing_plugin ''wordpress''
      \<and> enhance_schema failing_plugin blank_page_schema = Raised blank_page_schema"
    by (simp add: failing_plugin_def applies_to_def)
  have m: "map plugin_name (filter (\<lambda>p. applies_to p ''wordpress'') ?reg) = [''wordpress_enhancer'']"
    by (simp add: get_plugins_def WordPressPlugin_def applies_to_def)
  have n: "plugin_name failing_plugin = ''broken''" by (simp add: failing_plugin_def)
  from plugins_dispatch[of "failing_plugin # ?reg" blank_page_schema "''wordpress''"
      failing_plugin blank_page_schema] f
  have c: "invoked_plugins (enhance_with_plugins (failing_plugin # ?reg) blank_page_schema
      ''wordpress'') = [''broken'', ''wordpress_enhancer'']"
    by (simp add: get_plugins_def WordPressPlugin_def applies_to_def failing_plugin_def)
  have d: "applied_plugins (enhance_with_plugins (failing_plugin # ?reg) blank_page_schema
      ''wordpress'') = [''wordpress_enhancer'']"
    by (simp add: enhance_with_plugins_def get_plugins_def WordPressPlugin_def applies_to_def
        failing_plugin_def wordpress_enhance_schema_def)
  have e: "cms (metadata (enhanced (enhance_with_plugins (failing_plugin # ?reg)
      blank_page_schema ''wordpress''))) = Some (''wordpress'', Some ''twentytwenty'')"
    by (simp add: enhance_with_plugins_def get_plugins_def WordPressPlugin_def applies_to_def
        failing_plugin_def wordpress_enhance_schema_def)
  from a b c d e show ?thesis by (intro conjI)
qed

subsection \<open>Artifact derivers\<close>


text \<open>
  C6. The claim is that a deriver that fails internally leaves \<open>None\<close> as its output
  while the other derivers complete. With a number among the spacing units the
  documentation deriver raises inside and its output is the empty string, not \<open>None\<close>,
  while the code-snippet deriver, raising on the same schema, gives \<open>None\<close>. Without a
  color dictionary the AI view raises after its last \<open>try\<close> block, and the run ends
  with no documentation at all, where the documentation deriver alone returns its empty
  string.
\<close>

theorem deriver_failure_outputs:
  "documentation_body numeric_spacing_schema = Inl TypeError
   \<and> documentation (derive_artifacts Inr True True True (Assembled numeric_spacing_schema))
       = Some EmptyString
   \<and> code_snippets_body numeric_spacing_schema = Inl TypeError
   \<and> code_snippets (derive_artifacts Inr True True True (Assembled numeric_spacing_schema))
       = None
   \<and> map_option full_palette_hex
        (ai_optimized_schema
           (derive_artifacts Inr True True True (Assembled numeric_spacing_schema)))
       = Some (Some [])
   \<and> optimize_for_ai_consumption Inr (ColorsNotDict blank_page_schema) = Inl AttributeError
   \<and> ai_optimized_schema (derive_artifacts Inr True True True (ColorsNotDict blank_page_schema))
       = None
   \<and> documentation (derive_artifacts Inr True True True (ColorsNotDict blank_page_schema))
       = None
   \<and> documentation (derive_artifacts Inr False True True (ColorsNotDict blank_page_schema))
       = Some EmptyString"
proof -
  have spacing: "documentation_body numeric_spacing_schema = Inl TypeError"
    "documentation (derive_artifacts Inr True True True (Assembled numeric_spacing_schema))
       = Some EmptyString"
    "code_snippets_body numeric_spacing_schema = Inl TypeError"
    "code_snippets (derive_artifacts Inr True True True (Assembled numeric_spacing_schema))
       = None"
    "map_option full_palette_hex
        (ai_optimized_schema
           (derive_artifacts Inr True True True (Assembled numeric_spacing_schema)))
       = Some (Some [])"
    by code_simp+
  have ai: "optimize_for_ai_consumption Inr (ColorsNotDict blank_page_schema)
      = Inl AttributeError"
    by (simp add: optimize_for_ai_consumption_def)
  have aborted:
    "ai_optimized_schema (derive_artifacts Inr True True True (ColorsNotDict blank_page_schema))
       = None"
    "documentation (derive_artifacts Inr True True True (ColorsNotDict blank_page_schema))
       = None"
    by (simp_all add: derive_artifacts_def ai)
  have alone:
    "documentation (derive_artifacts Inr False True True (ColorsNotDict blank_page_schema))
       = Some EmptyString"
    by (simp add: derive_artifacts_def documentation_for_def code_snippets_for_def)
  from spacing ai aborted alone show ?thesis by (intro conjI)
qed

end
